theory Spec2Isabelle
  imports Main
begin

section \<open>The model loader of OpalForge: probing candidate locations, then loading\<close>

text \<open>
  The script under study is the diagnostic variant of the application script (the one
  with \<^verbatim>\<open>tryFetchInfo\<close>, \<^verbatim>\<open>MODEL_CANDIDATES\<close> and the multi-path \<^verbatim>\<open>loadModel\<close>).
  Its two functions \<^verbatim>\<open>tryFetchInfo\<close> and \<^verbatim>\<open>loadModel\<close> are embedded as HOL functions.

  \<^item> JavaScript strings are \<open>string\<close>; one \<open>char\<close> stands for one code unit, which is
    what \<^verbatim>\<open>slice\<close> counts.
  \<^item> A thrown value is an Error object (name and message); a computation that may throw
    has type \<open>thrown + 'a\<close>, with \<open>Inl\<close> for the throw or the rejected promise.
  \<^item> The outside world is a parameter: what \<^verbatim>\<open>fetch\<close> answers for a location, what
    the global \<^verbatim>\<open>tf\<close> is, and what \<^verbatim>\<open>tf.loadLayersModel\<close> answers for a location.
    Within one run a location is answered the same way every time it is asked.
  \<^item> \<^verbatim>\<open>loadModel\<close> returns no value: all it does is effects. The embedding returns the
    list of effects in program order (writes to the two DOM elements, console lines,
    network requests, calls of the runtime loader, the write of the \<^verbatim>\<open>model\<close> slot,
    promises left unawaited) together with how the function completed. A program state
    and the function applying an effect list to it follow below.
  \<^item> Every \<^verbatim>\<open>await\<close> of the loop is sequential, so the order of the list is the order
    in which the effects happen. Other event handlers that run while the function is
    suspended are not part of it and are not modelled.
\<close>

subsection \<open>Thrown values and try/catch\<close>

datatype thrown = JsError (err_name: string) (err_message: string)

text \<open>\<^verbatim>\<open>String(e)\<close> on an Error object: \<^verbatim>\<open>Error.prototype.toString\<close>.\<close>

fun String_of :: "thrown \<Rightarrow> string" where
  "String_of (JsError n m) = (if n = [] then m else if m = [] then n else n @ '': '' @ m)"

definition try_catch :: "(thrown + 'a) \<Rightarrow> (thrown \<Rightarrow> thrown + 'a) \<Rightarrow> thrown + 'a" where
  "try_catch body handler = (case body of Inl e \<Rightarrow> handler e | Inr v \<Rightarrow> Inr v)"

definition bind_ex :: "(thrown + 'a) \<Rightarrow> ('a \<Rightarrow> thrown + 'b) \<Rightarrow> thrown + 'b" where
  "bind_ex c k = (case c of Inl e \<Rightarrow> Inl e | Inr v \<Rightarrow> k v)"

subsection \<open>The collaborators: fetch and the inference runtime\<close>

text \<open>
  What the script reads of a \<^verbatim>\<open>Response\<close>: \<^verbatim>\<open>res.ok\<close>, \<^verbatim>\<open>res.status\<close>, \<^verbatim>\<open>res.url\<close>,
  the answer of \<^verbatim>\<open>res.headers.get('access-control-allow-origin')\<close> (\<^verbatim>\<open>null\<close> is \<open>None\<close>)
  and the outcome of \<^verbatim>\<open>await res.clone().text()\<close>.
\<close>

record Response =
  res_ok :: bool
  res_status :: nat
  res_url :: string
  res_acao :: "string option"
  res_text :: "thrown + string"

text \<open>
  The global \<^verbatim>\<open>tf\<close> as the two \<^verbatim>\<open>typeof\<close> tests see it: undefined; defined with no
  function \<^verbatim>\<open>loadLayersModel\<close>; defined with the function, which for a location
  either resolves to a model handle or throws. The binding is read once per run. A
  \<^verbatim>\<open>tf\<close> that is \<^verbatim>\<open>null\<close>, on which the second test itself would throw, is left out:
  the library either defines the namespace object or does not load.
\<close>

datatype 'm tf_global =
    TfUndefined
  | TfWithoutLoader
  | TfLayers "string \<Rightarrow> thrown + 'm"

record 'm env =
  tf :: "'m tf_global"
  fetch :: "string \<Rightarrow> thrown + Response"

subsection \<open>Probe results\<close>

text \<open>
  The object \<^verbatim>\<open>tryFetchInfo\<close> returns: \<^verbatim>\<open>{ok, status, url, acao, preview}\<close> after a
  fetch that returned, \<^verbatim>\<open>{ok: false, error}\<close> after one that threw.
\<close>

datatype ProbeResult =
    ProbeInfo bool nat string "string option" string
  | ProbeError string

fun ok :: "ProbeResult \<Rightarrow> bool" where
  "ok (ProbeInfo b st u a p) = b"
| "ok (ProbeError e) = False"

subsection \<open>Effects\<close>

datatype level = Info | Warn | Err

datatype 'm js_arg =
    Str string
  | Obj ProbeResult
  | Thrown thrown
  | Null
  | Handle 'm
  | TfObject

text \<open>
  \<open>Console l args\<close> is \<^verbatim>\<open>console.log\<close>, \<^verbatim>\<open>console.warn\<close> or \<^verbatim>\<open>console.error\<close> called
  with \<^verbatim>\<open>'[app.js]'\<close> and then \<open>args\<close> (the helpers \<^verbatim>\<open>log\<close>, \<^verbatim>\<open>warn\<close>, \<^verbatim>\<open>error\<close>).
  \<open>Detach c r\<close> is the promise chain
  \<^verbatim>\<open>tryFetchInfo(c).then(info => log('probe', c, info)).catch(() => {})\<close> left unawaited,
  \<open>r\<close> being what \<^verbatim>\<open>tryFetchInfo(c)\<close> settles with.
\<close>

datatype 'm effect =
    SetLoaderDisplay string
  | SetOutputText string
  | Console level "'m js_arg list"
  | Fetch string
  | LoadLayersModel string
  | AssignModel 'm
  | Detach string "thrown + ProbeResult"

definition log :: "'m js_arg list \<Rightarrow> 'm effect" where
  "log args = Console Info args"

definition warn :: "'m js_arg list \<Rightarrow> 'm effect" where
  "warn args = Console Warn args"

definition error :: "'m js_arg list \<Rightarrow> 'm effect" where
  "error args = Console Err args"

subsection \<open>tryFetchInfo\<close>

definition tryFetchInfo :: "'m env \<Rightarrow> string \<Rightarrow> 'm effect list \<times> (thrown + ProbeResult)" where
  "tryFetchInfo env url =
     ([Fetch url],
      try_catch
        (bind_ex (fetch env url) (\<lambda>res.
           bind_ex
             (try_catch
                (bind_ex (res_text res) (\<lambda>txt. Inr (take 1000 txt)))
                (\<lambda>e. Inr ''(preview not available)''))
             (\<lambda>preview.
                Inr (ProbeInfo (res_ok res) (res_status res) (res_url res) (res_acao res) preview))))
        (\<lambda>e. Inr (ProbeError (String_of e))))"

subsection \<open>loadModel\<close>

definition MODEL_CANDIDATES :: "string list" where
  "MODEL_CANDIDATES =
     [''./model.json'',
      ''/model.json'',
      ''model.json'',
      ''./static/model/model.json'',
      ''static/model/model.json'',
      ''./models/model.json'',
      ''/static/model/model.json'']"

text \<open>
  How the \<^verbatim>\<open>for\<close> loop over the candidates ends: by the \<^verbatim>\<open>return\<close> after a successful
  load, by running out of candidates (with the value of \<^verbatim>\<open>lastError\<close>, \<open>None\<close> for
  \<^verbatim>\<open>null\<close>), or by an exception that nothing in the loop catches.
\<close>

datatype loop_exit = Returned | Exhausted "thrown option" | Uncaught thrown

definition after :: "'e list \<Rightarrow> 'e list \<times> 'r \<Rightarrow> 'e list \<times> 'r" where
  "after es r = (es @ fst r, snd r)"

fun candidates_loop ::
  "'m env \<Rightarrow> (string \<Rightarrow> thrown + 'm) \<Rightarrow> string list \<Rightarrow> thrown option \<Rightarrow> 'm effect list \<times> loop_exit"
where
  "candidates_loop env loadLayersModel [] lastError = ([], Exhausted lastError)"
| "candidates_loop env loadLayersModel (candidate # rest) lastError =
     after (log [Str ''Probing candidate:'', Str candidate] # fst (tryFetchInfo env candidate))
       (case snd (tryFetchInfo env candidate) of
          Inl e \<Rightarrow> ([], Uncaught e)
        | Inr fetchInfo \<Rightarrow>
            after [log [Str ''Fetch result for'', Str candidate, Obj fetchInfo]]
              (if \<not> ok fetchInfo then
                 after [warn [Str ''Fetch failed or not OK for'', Str candidate, Obj fetchInfo]]
                   (candidates_loop env loadLayersModel rest lastError)
               else
                 after [log [Str ''Attempting tf.loadLayersModel('', Str candidate, Str '')''],
                        LoadLayersModel candidate]
                   (case loadLayersModel candidate of
                      Inr m \<Rightarrow>
                        ([AssignModel m,
                          SetLoaderDisplay ''none'',
                          SetOutputText ''Model loaded. Upload an image to start.'',
                          log [Str ''Model loaded successfully from'', Str candidate, Handle m]],
                         Returned)
                    | Inl e \<Rightarrow>
                        after [warn [Str ''tf.loadLayersModel failed for'', Str candidate, Thrown e]]
                          (candidates_loop env loadLayersModel rest (Some e)))))"

text \<open>
  The second loop, after all candidates failed: each \<^verbatim>\<open>tryFetchInfo(c)\<close> is called and
  so issues its request, and its promise is left with the logging callback attached.
\<close>

fun reprobe :: "'m env \<Rightarrow> string list \<Rightarrow> 'm effect list" where
  "reprobe env [] = []"
| "reprobe env (c # cs) =
     fst (tryFetchInfo env c) @ [Detach c (snd (tryFetchInfo env c))] @ reprobe env cs"

datatype completion = Normal | Abrupt thrown

definition js_of_lastError :: "thrown option \<Rightarrow> 'm js_arg" where
  "js_of_lastError lastError = (case lastError of None \<Rightarrow> Null | Some e \<Rightarrow> Thrown e)"

text \<open>
  \<^verbatim>\<open>loadModel\<close> with the candidate list as a parameter (the contract \<^verbatim>\<open>locateAndLoad\<close>);
  the script's own \<^verbatim>\<open>loadModel\<close> runs it on \<^verbatim>\<open>MODEL_CANDIDATES\<close>.
\<close>

definition locateAndLoad :: "'m env \<Rightarrow> string list \<Rightarrow> 'm effect list \<times> completion" where
  "locateAndLoad env candidates =
     after [SetLoaderDisplay ''block'',
            SetOutputText ''Loading model...'',
            log [Str ''Starting model load sequence...'']]
       (case tf env of
          TfUndefined \<Rightarrow>
            ([SetLoaderDisplay ''none'',
              SetOutputText ''TensorFlow.js not loaded. Check network/CSP.'',
              error [Str ''tf is undefined; TF.js script may be blocked or failed to load.'']],
             Normal)
        | TfWithoutLoader \<Rightarrow>
            ([SetLoaderDisplay ''none'',
              SetOutputText ''Incompatible TF.js build: loadLayersModel missing.'',
              error [Str ''tf.loadLayersModel is not a function. TF.js build missing layers API? tf:'',
                     TfObject]],
             Normal)
        | TfLayers loadLayersModel \<Rightarrow>
            (case candidates_loop env loadLayersModel candidates None of
               (es, Returned) \<Rightarrow> (es, Normal)
             | (es, Uncaught e) \<Rightarrow> (es, Abrupt e)
             | (es, Exhausted lastError) \<Rightarrow>
                 (es @
                  [SetLoaderDisplay ''none'',
                   SetOutputText ''Model not loaded. See console for details.'',
                   error [Str ''Model load failed for all candidate paths. Last error:'',
                          js_of_lastError lastError],
                   error [Str ''Network probes summary:'']] @
                  reprobe env candidates,
                  Normal)))"

definition loadModel :: "'m env \<Rightarrow> 'm effect list \<times> completion" where
  "loadModel env = locateAndLoad env MODEL_CANDIDATES"

subsection \<open>The program state and what an effect does to it\<close>

text \<open>
  The \<^verbatim>\<open>model\<close> slot (\<^verbatim>\<open>null\<close> is \<open>None\<close>), the two DOM properties the function writes,
  and the console.
\<close>

record 'm state =
  model :: "'m option"
  loader_display :: string
  output_textContent :: string
  console :: "(level \<times> 'm js_arg list) list"

fun apply_effect :: "'m state \<Rightarrow> 'm effect \<Rightarrow> 'm state" where
  "apply_effect s (SetLoaderDisplay d) = s\<lparr>loader_display := d\<rparr>"
| "apply_effect s (SetOutputText t) = s\<lparr>output_textContent := t\<rparr>"
| "apply_effect s (Console l args) = s\<lparr>console := console s @ [(l, args)]\<rparr>"
| "apply_effect s (Fetch u) = s"
| "apply_effect s (LoadLayersModel u) = s"
| "apply_effect s (AssignModel m) = s\<lparr>model := Some m\<rparr>"
| "apply_effect s (Detach c r) = s"

definition run_effects :: "'m state \<Rightarrow> 'm effect list \<Rightarrow> 'm state" where
  "run_effects s es = foldl apply_effect s es"

text \<open>
  A detached promise settling later: the \<^verbatim>\<open>then\<close> callback logs the probe result; a
  rejection is swallowed by the empty \<^verbatim>\<open>catch\<close>.
\<close>

fun settle :: "string \<times> (thrown + ProbeResult) \<Rightarrow> 'm effect list" where
  "settle (c, Inr info) = [log [Str ''probe'', Str c, Obj info]]"
| "settle (c, Inl e) = []"

subsection \<open>Reading an effect list\<close>

text \<open>
  The properties below are stated through what can be read off an effect list and off
  the world. \<open>probe env url\<close> is the object \<open>tryFetchInfo\<close> returns for \<open>url\<close>, written
  without the try blocks (that it is so is a lemma). A candidate is usable when its probe
  is ok and the loader resolves on it.
\<close>

definition preview_of :: "Response \<Rightarrow> string" where
  "preview_of res = (case res_text res of Inr txt \<Rightarrow> take 1000 txt | Inl e \<Rightarrow> ''(preview not available)'')"

definition probe :: "'m env \<Rightarrow> string \<Rightarrow> ProbeResult" where
  "probe env url =
     (case fetch env url of
        Inl e \<Rightarrow> ProbeError (String_of e)
      | Inr res \<Rightarrow> ProbeInfo (res_ok res) (res_status res) (res_url res) (res_acao res) (preview_of res))"

definition probe_succeeds :: "'m env \<Rightarrow> string \<Rightarrow> bool" where
  "probe_succeeds env url = (case snd (tryFetchInfo env url) of Inr info \<Rightarrow> ok info | Inl e \<Rightarrow> False)"

definition load_succeeds :: "(string \<Rightarrow> thrown + 'm) \<Rightarrow> string \<Rightarrow> bool" where
  "load_succeeds loadLayersModel url = (case loadLayersModel url of Inr m \<Rightarrow> True | Inl e \<Rightarrow> False)"

definition usable :: "'m env \<Rightarrow> (string \<Rightarrow> thrown + 'm) \<Rightarrow> string \<Rightarrow> bool" where
  "usable env loadLayersModel url = (probe_succeeds env url \<and> load_succeeds loadLayersModel url)"

text \<open>
  The locations fetched, the locations the runtime loader was called on, the handles
  written to the \<open>model\<close> slot, the texts written to the page and to the loader element,
  the console lines, and the promises left unawaited, each in program order.
\<close>

fun fetched_of :: "'m effect \<Rightarrow> string list" where
  "fetched_of (Fetch u) = [u]"
| "fetched_of _ = []"

fun load_attempt_of :: "'m effect \<Rightarrow> string list" where
  "load_attempt_of (LoadLayersModel u) = [u]"
| "load_attempt_of _ = []"

fun model_write_of :: "'m effect \<Rightarrow> 'm list" where
  "model_write_of (AssignModel m) = [m]"
| "model_write_of _ = []"

definition fetched :: "'m effect list \<Rightarrow> string list" where
  "fetched es = concat (map fetched_of es)"

definition load_attempts :: "'m effect list \<Rightarrow> string list" where
  "load_attempts es = concat (map load_attempt_of es)"

definition model_writes :: "'m effect list \<Rightarrow> 'm list" where
  "model_writes es = concat (map model_write_of es)"

fun output_write_of :: "'m effect \<Rightarrow> string list" where
  "output_write_of (SetOutputText t) = [t]"
| "output_write_of _ = []"

fun loader_write_of :: "'m effect \<Rightarrow> string list" where
  "loader_write_of (SetLoaderDisplay d) = [d]"
| "loader_write_of _ = []"

fun console_line_of :: "'m effect \<Rightarrow> (level \<times> 'm js_arg list) list" where
  "console_line_of (Console l args) = [(l, args)]"
| "console_line_of _ = []"

text \<open>
  The probe results the loop logs: the lines \<^verbatim>\<open>log('Fetch result for', candidate, fetchInfo)\<close>.
  The script keeps no list of them; the console is where they are recorded.
\<close>

fun fetch_result_of :: "level \<times> 'm js_arg list \<Rightarrow> (string \<times> ProbeResult) list" where
  "fetch_result_of (Info, [Str t, Str c, Obj info]) =
     (if t = ''Fetch result for'' then [(c, info)] else [])"
| "fetch_result_of _ = []"

definition output_writes :: "'m effect list \<Rightarrow> string list" where
  "output_writes es = concat (map output_write_of es)"

definition loader_writes :: "'m effect list \<Rightarrow> string list" where
  "loader_writes es = concat (map loader_write_of es)"

definition console_lines :: "'m effect list \<Rightarrow> (level \<times> 'm js_arg list) list" where
  "console_lines es = concat (map console_line_of es)"

definition fetch_results :: "'m effect list \<Rightarrow> (string \<times> ProbeResult) list" where
  "fetch_results es = concat (map fetch_result_of (console_lines es))"

text \<open>
  The candidates the loop reaches: those before the first usable one, and that one. The
  errors of the loads that were tried and failed, in list order. The effects from the
  first write of the \<open>model\<close> slot on, and the four effects of a successful load.
\<close>

definition attempted :: "'m env \<Rightarrow> (string \<Rightarrow> thrown + 'm) \<Rightarrow> string list \<Rightarrow> string list" where
  "attempted env ld cs =
     takeWhile (Not \<circ> usable env ld) cs @ take 1 (dropWhile (Not \<circ> usable env ld) cs)"

definition load_errors :: "'m env \<Rightarrow> (string \<Rightarrow> thrown + 'm) \<Rightarrow> string list \<Rightarrow> thrown list" where
  "load_errors env ld cs =
     concat (map (\<lambda>c. if probe_succeeds env c then (case ld c of Inl e \<Rightarrow> [e] | Inr m \<Rightarrow> []) else []) cs)"

fun detach_of :: "'m effect \<Rightarrow> (string \<times> (thrown + ProbeResult)) list" where
  "detach_of (Detach c r) = [(c, r)]"
| "detach_of _ = []"

definition detached :: "'m effect list \<Rightarrow> (string \<times> (thrown + ProbeResult)) list" where
  "detached es = concat (map detach_of es)"

definition after_first_write :: "'m effect list \<Rightarrow> 'm effect list" where
  "after_first_write es = dropWhile (\<lambda>e. model_write_of e = []) es"

definition loaded_effects :: "string \<Rightarrow> 'm \<Rightarrow> 'm effect list" where
  "loaded_effects c m =
     [AssignModel m,
      SetLoaderDisplay ''none'',
      SetOutputText ''Model loaded. Upload an image to start.'',
      log [Str ''Model loaded successfully from'', Str c, Handle m]]"

subsection \<open>A sample deployment\<close>

text \<open>
  A host where the first location is unreachable, the second serves an HTML page with
  status 200, the third serves the manifest, and every other location answers 404.
\<close>

definition ex_load :: "string \<Rightarrow> thrown + nat" where
  "ex_load u =
     (if u = ''model.json'' then Inr 7
      else Inl (JsError ''SyntaxError'' ''Unexpected token < in JSON at position 0''))"

definition ex_fetch :: "string \<Rightarrow> thrown + Response" where
  "ex_fetch u =
     (if u = ''./model.json'' then Inl (JsError ''TypeError'' ''Failed to fetch'')
      else if u = ''/model.json'' then
        Inr \<lparr>res_ok = True, res_status = 200, res_url = ''https://host/model.json'',
             res_acao = None, res_text = Inr ''<!doctype html>''\<rparr>
      else if u = ''model.json'' then
        Inr \<lparr>res_ok = True, res_status = 200, res_url = ''https://host/app/model.json'',
             res_acao = Some ''*'', res_text = Inr ''{\"format\": \"layers-model\"}''\<rparr>
      else
        Inr \<lparr>res_ok = False, res_status = 404, res_url = u,
             res_acao = None, res_text = Inl (JsError ''TypeError'' ''body stream already read'')\<rparr>)"

definition ex_env :: "nat env" where
  "ex_env = \<lparr>tf = TfLayers ex_load, fetch = ex_fetch\<rparr>"

definition ex_state :: "nat state" where
  "ex_state = \<lparr>model = None, loader_display = ''none'', output_textContent = [], console = []\<rparr>"

text \<open>
  A runtime whose loader fails everywhere, a host that serves a body of 1500 characters,
  and a second world that differs from the sample one only at a location that is not a
  candidate.
\<close>

definition failing_load :: "string \<Rightarrow> thrown + nat" where
  "failing_load u = Inl (JsError ''Error'' (''no manifest at '' @ u))"

definition long_body_env :: "nat env" where
  "long_body_env =
     \<lparr>tf = TfUndefined,
      fetch = (\<lambda>u. Inr \<lparr>res_ok = True, res_status = 200, res_url = u, res_acao = Some ''*'',
                         res_text = Inr (replicate 1500 (CHR ''x''))\<rparr>)\<rparr>"

subsection \<open>The loader without the diagnostic pass\<close>

text \<open>
  The specification allows an implementation to leave out what follows the report of the
  last error, namely the heading \<^verbatim>\<open>Network probes summary:\<close> and the second loop over
  the candidates. This is \<open>locateAndLoad\<close> with those lines removed and nothing else
  changed; it is compared with \<open>locateAndLoad\<close> below.
\<close>

definition locateAndLoad_without_reprobe :: "'m env \<Rightarrow> string list \<Rightarrow> 'm effect list \<times> completion" where
  "locateAndLoad_without_reprobe env candidates =
     after [SetLoaderDisplay ''block'',
            SetOutputText ''Loading model...'',
            log [Str ''Starting model load sequence...'']]
       (case tf env of
          TfUndefined \<Rightarrow>
            ([SetLoaderDisplay ''none'',
              SetOutputText ''TensorFlow.js not loaded. Check network/CSP.'',
              error [Str ''tf is undefined; TF.js script may be blocked or failed to load.'']],
             Normal)
        | TfWithoutLoader \<Rightarrow>
            ([SetLoaderDisplay ''none'',
              SetOutputText ''Incompatible TF.js build: loadLayersModel missing.'',
              error [Str ''tf.loadLayersModel is not a function. TF.js build missing layers API? tf:'',
                     TfObject]],
             Normal)
        | TfLayers loadLayersModel \<Rightarrow>
            (case candidates_loop env loadLayersModel candidates None of
               (es, Returned) \<Rightarrow> (es, Normal)
             | (es, Uncaught e) \<Rightarrow> (es, Abrupt e)
             | (es, Exhausted lastError) \<Rightarrow>
                 (es @
                  [SetLoaderDisplay ''none'',
                   SetOutputText ''Model not loaded. See console for details.'',
                   error [Str ''Model load failed for all candidate paths. Last error:'',
                          js_of_lastError lastError]],
                  Normal)))"

subsection \<open>Two worlds that answer alike on the candidates\<close>

definition same_answers :: "'m env \<Rightarrow> 'm env \<Rightarrow> string list \<Rightarrow> bool" where
  "same_answers env1 env2 cands =
     (list_all (\<lambda>u. fetch env1 u = fetch env2 u) cands \<and>
      (case tf env1 of
         TfUndefined \<Rightarrow> tf env2 = TfUndefined
       | TfWithoutLoader \<Rightarrow> tf env2 = TfWithoutLoader
       | TfLayers l1 \<Rightarrow>
           (case tf env2 of
              TfLayers l2 \<Rightarrow> list_all (\<lambda>u. l1 u = l2 u) cands
            | _ \<Rightarrow> False)))"

definition later_env :: "nat env" where
  "later_env =
     \<lparr>tf = TfLayers (\<lambda>u. if u = ''other.json'' then Inr 9 else ex_load u),
      fetch = (\<lambda>u. if u = ''other.json'' then Inl (JsError ''TypeError'' ''Failed to fetch'')
                    else ex_fetch u)\<rparr>"

section \<open>Properties\<close>

subsection \<open>Auxiliary facts\<close>

lemma fst_after [simp]: "fst (after es r) = es @ fst r"
  by (simp add: after_def)

lemma snd_after [simp]: "snd (after es r) = snd r"
  by (simp add: after_def)

lemma fst_tryFetchInfo [simp]: "fst (tryFetchInfo env url) = [Fetch url]"
  by (simp add: tryFetchInfo_def)

lemma snd_tryFetchInfo: "snd (tryFetchInfo env url) = Inr (probe env url)"
  by (simp add: tryFetchInfo_def probe_def preview_of_def try_catch_def bind_ex_def
      split: sum.splits)

lemma probe_succeeds_iff: "probe_succeeds env url = ok (probe env url)"
  by (simp add: probe_succeeds_def snd_tryFetchInfo)

lemma loop_Cons:
  "candidates_loop env ld (c # rest) le =
     (if \<not> ok (probe env c) then
        after [log [Str ''Probing candidate:'', Str c], Fetch c,
               log [Str ''Fetch result for'', Str c, Obj (probe env c)],
               warn [Str ''Fetch failed or not OK for'', Str c, Obj (probe env c)]]
          (candidates_loop env ld rest le)
      else case ld c of
        Inr m \<Rightarrow>
          ([log [Str ''Probing candidate:'', Str c], Fetch c,
            log [Str ''Fetch result for'', Str c, Obj (probe env c)],
            log [Str ''Attempting tf.loadLayersModel('', Str c, Str '')''],
            LoadLayersModel c,
            AssignModel m,
            SetLoaderDisplay ''none'',
            SetOutputText ''Model loaded. Upload an image to start.'',
            log [Str ''Model loaded successfully from'', Str c, Handle m]], Returned)
      | Inl e \<Rightarrow>
          after [log [Str ''Probing candidate:'', Str c], Fetch c,
                 log [Str ''Fetch result for'', Str c, Obj (probe env c)],
                 log [Str ''Attempting tf.loadLayersModel('', Str c, Str '')''],
                 LoadLayersModel c,
                 warn [Str ''tf.loadLayersModel failed for'', Str c, Thrown e]]
            (candidates_loop env ld rest (Some e)))"
  by (simp add: snd_tryFetchInfo after_def split: sum.splits)


lemmas proj_defs = detached_def
  fetched_def load_attempts_def model_writes_def output_writes_def
  loader_writes_def console_lines_def fetch_results_def log_def warn_def error_def

lemma run_effects_snoc: "run_effects s (es @ [e]) = apply_effect (run_effects s es) e"
  by (simp add: run_effects_def)

lemma run_effects_append: "run_effects s (es @ fs) = run_effects (run_effects s es) fs"
  by (simp add: run_effects_def)

lemma model_run_effects:
  "model (run_effects s es) = (if model_writes es = [] then model s else Some (last (model_writes es)))"
proof (induction es rule: rev_induct)
  case Nil
  show ?case by (simp add: run_effects_def model_writes_def)
next
  case (snoc e es)
  then show ?case by (cases e) (simp_all add: run_effects_snoc model_writes_def)
qed

lemma output_run_effects:
  "output_textContent (run_effects s es) =
     (if output_writes es = [] then output_textContent s else last (output_writes es))"
proof (induction es rule: rev_induct)
  case Nil
  show ?case by (simp add: run_effects_def output_writes_def)
next
  case (snoc e es)
  then show ?case by (cases e) (simp_all add: run_effects_snoc output_writes_def)
qed

lemma loader_run_effects:
  "loader_display (run_effects s es) =
     (if loader_writes es = [] then loader_display s else last (loader_writes es))"
proof (induction es rule: rev_induct)
  case Nil
  show ?case by (simp add: run_effects_def loader_writes_def)
next
  case (snoc e es)
  then show ?case by (cases e) (simp_all add: run_effects_snoc loader_writes_def)
qed

lemma console_run_effects: "console (run_effects s es) = console s @ console_lines es"
proof (induction es rule: rev_induct)
  case Nil
  show ?case by (simp add: run_effects_def console_lines_def)
next
  case (snoc e es)
  then show ?case by (cases e) (simp_all add: run_effects_snoc console_lines_def)
qed

lemma usable_iff: "usable env ld c \<longleftrightarrow> ok (probe env c) \<and> (\<exists>m. ld c = Inr m)"
  by (simp add: usable_def probe_succeeds_iff load_succeeds_def split: sum.splits)

lemma loop_exit_found:
  "find (usable env ld) cs = Some c \<Longrightarrow> snd (candidates_loop env ld cs le) = Returned"
proof (induction cs arbitrary: le)
  case Nil
  then show ?case by simp
next
  case (Cons a cs)
  then show ?case
    by (auto simp: loop_Cons usable_iff simp del: candidates_loop.simps split: sum.splits if_splits)
qed

lemma load_errors_Nil [simp]: "load_errors env ld [] = []"
  by (simp add: load_errors_def)

lemma load_errors_Cons:
  "load_errors env ld (c # cs) =
     (if ok (probe env c) then (case ld c of Inl e \<Rightarrow> [e] | Inr m \<Rightarrow> []) else []) @ load_errors env ld cs"
  by (simp add: load_errors_def probe_succeeds_iff)

lemma loop_exit_none:
  "find (usable env ld) cs = None \<Longrightarrow>
   snd (candidates_loop env ld cs le) =
     Exhausted (if load_errors env ld cs = [] then le else Some (last (load_errors env ld cs)))"
proof (induction cs arbitrary: le)
  case Nil
  then show ?case by simp
next
  case (Cons a cs)
  from Cons.prems have nu: "\<not> usable env ld a" and rest: "find (usable env ld) cs = None"
    by (simp_all split: if_splits)
  show ?case
  proof (cases "ok (probe env a)")
    case False
    then show ?thesis
      using Cons.IH [OF rest, of le] by (simp add: loop_Cons load_errors_Cons del: candidates_loop.simps)
  next
    case True
    with nu obtain e where e: "ld a = Inl e"
      by (cases "ld a") (auto simp: usable_iff)
    show ?thesis
      using True e Cons.IH [OF rest, of "Some e"]
      by (simp add: loop_Cons load_errors_Cons del: candidates_loop.simps)
  qed
qed

lemma loop_fetched: "fetched (fst (candidates_loop env ld cs le)) = attempted env ld cs"
proof (induction cs arbitrary: le)
  case Nil
  then show ?case by (simp add: attempted_def fetched_def)
next
  case (Cons a cs)
  then show ?case
    by (auto simp: loop_Cons usable_iff attempted_def proj_defs
        simp del: candidates_loop.simps split: sum.splits)
qed

lemma loop_load_attempts:
  "load_attempts (fst (candidates_loop env ld cs le)) = filter (probe_succeeds env) (attempted env ld cs)"
proof (induction cs arbitrary: le)
  case Nil
  then show ?case by (simp add: attempted_def load_attempts_def)
next
  case (Cons a cs)
  then show ?case
    by (auto simp: loop_Cons usable_iff attempted_def proj_defs probe_succeeds_iff
        simp del: candidates_loop.simps split: sum.splits)
qed

lemma loop_fetch_results:
  "fetch_results (fst (candidates_loop env ld cs le)) = map (\<lambda>c. (c, probe env c)) (attempted env ld cs)"
proof (induction cs arbitrary: le)
  case Nil
  then show ?case by (simp add: attempted_def proj_defs)
next
  case (Cons a cs)
  then show ?case
    by (auto simp: loop_Cons usable_iff attempted_def proj_defs
        simp del: candidates_loop.simps split: sum.splits)
qed


lemma proj_append:
  "fetched (es @ fs) = fetched es @ fetched fs"
  "load_attempts (es @ fs) = load_attempts es @ load_attempts fs"
  "model_writes (es @ fs) = model_writes es @ model_writes fs"
  "output_writes (es @ fs) = output_writes es @ output_writes fs"
  "loader_writes (es @ fs) = loader_writes es @ loader_writes fs"
  "console_lines (es @ fs) = console_lines es @ console_lines fs"
  "fetch_results (es @ fs) = fetch_results es @ fetch_results fs"
  "detached (es @ fs) = detached es @ detached fs"
  by (simp_all add: proj_defs)

lemma reprobe_proj:
  "fetched (reprobe env cs) = cs"
  "load_attempts (reprobe env cs) = []"
  "model_writes (reprobe env cs) = []"
  "output_writes (reprobe env cs) = []"
  "loader_writes (reprobe env cs) = []"
  "console_lines (reprobe env cs) = []"
  "fetch_results (reprobe env cs) = []"
  "detached (reprobe env cs) = map (\<lambda>c. (c, snd (tryFetchInfo env c))) cs"
  by (induction cs) (simp_all add: proj_defs)

lemma loop_model_writes:
  "model_writes (fst (candidates_loop env ld cs le)) =
     (case find (usable env ld) cs of None \<Rightarrow> []
      | Some c \<Rightarrow> (case ld c of Inr m \<Rightarrow> [m] | Inl e \<Rightarrow> []))"
proof (induction cs arbitrary: le)
  case Nil
  then show ?case by (simp add: proj_defs)
next
  case (Cons a cs)
  then show ?case
    by (auto simp: loop_Cons usable_iff proj_defs
        simp del: candidates_loop.simps split: sum.splits)
qed

lemma loop_detached: "detached (fst (candidates_loop env ld cs le)) = []"
proof (induction cs arbitrary: le)
  case Nil
  then show ?case by (simp add: proj_defs)
next
  case (Cons a cs)
  then show ?case
    by (auto simp: loop_Cons proj_defs simp del: candidates_loop.simps split: sum.splits)
qed

lemma loop_output_writes:
  "output_writes (fst (candidates_loop env ld cs le)) =
     (case find (usable env ld) cs of None \<Rightarrow> []
      | Some c \<Rightarrow> [''Model loaded. Upload an image to start.''])"
proof (induction cs arbitrary: le)
  case Nil
  then show ?case by (simp add: proj_defs)
next
  case (Cons a cs)
  then show ?case
    by (auto simp: loop_Cons usable_iff proj_defs
        simp del: candidates_loop.simps split: sum.splits)
qed

lemma loop_loader_writes:
  "loader_writes (fst (candidates_loop env ld cs le)) =
     (case find (usable env ld) cs of None \<Rightarrow> [] | Some c \<Rightarrow> [''none''])"
proof (induction cs arbitrary: le)
  case Nil
  then show ?case by (simp add: proj_defs)
next
  case (Cons a cs)
  then show ?case
    by (auto simp: loop_Cons usable_iff proj_defs
        simp del: candidates_loop.simps split: sum.splits)
qed

lemma loop_after_first_write:
  "after_first_write (fst (candidates_loop env ld cs le)) =
     (case find (usable env ld) cs of None \<Rightarrow> []
      | Some c \<Rightarrow> (case ld c of Inr m \<Rightarrow> loaded_effects c m | Inl e \<Rightarrow> []))"
proof (induction cs arbitrary: le)
  case Nil
  then show ?case by (simp add: after_first_write_def)
next
  case (Cons a cs)
  then show ?case
    by (auto simp: loop_Cons usable_iff after_first_write_def loaded_effects_def proj_defs
        simp del: candidates_loop.simps split: sum.splits)
qed

lemma loop_found_nonempty:
  "find (usable env ld) cs = Some c \<Longrightarrow> fst (candidates_loop env ld cs le) \<noteq> []"
  by (cases cs) (auto simp: loop_Cons simp del: candidates_loop.simps split: sum.splits)

lemma loop_last:
  "find (usable env ld) cs = Some c \<Longrightarrow> ld c = Inr m \<Longrightarrow>
   last (fst (candidates_loop env ld cs le)) =
     log [Str ''Model loaded successfully from'', Str c, Handle m]"
proof (induction cs arbitrary: le)
  case Nil
  then show ?case by simp
next
  case (Cons a cs)
  show ?case
  proof (cases "usable env ld a")
    case True
    with Cons.prems have "a = c" by simp
    with True Cons.prems show ?thesis
      by (simp add: loop_Cons usable_iff del: candidates_loop.simps)
  next
    case False
    with Cons.prems have rest: "find (usable env ld) cs = Some c" by simp
    note ne = loop_found_nonempty [OF rest]
    note ih = Cons.IH [OF rest Cons.prems(2)]
    show ?thesis
    proof (cases "ok (probe env a)")
      case False
      then show ?thesis
        using ne [of le] ih [of le] by (simp add: loop_Cons del: candidates_loop.simps)
    next
      case True
      with \<open>\<not> usable env ld a\<close> obtain e where e: "ld a = Inl e"
        by (cases "ld a") (auto simp: usable_iff)
      show ?thesis
        using True e ne [of "Some e"] ih [of "Some e"]
        by (simp add: loop_Cons del: candidates_loop.simps)
    qed
  qed
qed

lemma attempted_found:
  "find (usable env ld) cs = Some c \<Longrightarrow>
   attempted env ld cs = takeWhile (Not \<circ> usable env ld) cs @ [c]"
  by (induction cs) (auto simp: attempted_def split: if_splits)

lemma attempted_none: "find (usable env ld) cs = None \<Longrightarrow> attempted env ld cs = cs"
  by (induction cs) (auto simp: attempted_def split: if_splits)

lemma locate_found:
  assumes "tf env = TfLayers ld" and "find (usable env ld) cs = Some c"
  shows "locateAndLoad env cs =
    ([SetLoaderDisplay ''block'', SetOutputText ''Loading model...'',
      log [Str ''Starting model load sequence...'']] @ fst (candidates_loop env ld cs None),
     Normal)"
  using assms loop_exit_found [OF assms(2), of None]
  by (cases "candidates_loop env ld cs None") (simp add: locateAndLoad_def after_def)

lemma locate_exhausted:
  assumes "tf env = TfLayers ld" and "find (usable env ld) cs = None"
  shows "locateAndLoad env cs =
    ([SetLoaderDisplay ''block'', SetOutputText ''Loading model...'',
      log [Str ''Starting model load sequence...'']] @ fst (candidates_loop env ld cs None) @
     [SetLoaderDisplay ''none'',
      SetOutputText ''Model not loaded. See console for details.'',
      error [Str ''Model load failed for all candidate paths. Last error:'',
             js_of_lastError (if load_errors env ld cs = [] then None
                              else Some (last (load_errors env ld cs)))],
      error [Str ''Network probes summary:'']] @ reprobe env cs,
     Normal)"
  using assms loop_exit_none [OF assms(2), of None]
  by (cases "candidates_loop env ld cs None") (simp add: locateAndLoad_def after_def)

lemma preamble_proj:
  "fetched (SetLoaderDisplay d # SetOutputText t # log a # es) = fetched es"
  "load_attempts (SetLoaderDisplay d # SetOutputText t # log a # es) = load_attempts es"
  "model_writes (SetLoaderDisplay d # SetOutputText t # log a # es) = model_writes es"
  "detached (SetLoaderDisplay d # SetOutputText t # log a # es) = detached es"
  "output_writes (SetLoaderDisplay d # SetOutputText t # log a # es) = t # output_writes es"
  "loader_writes (SetLoaderDisplay d # SetOutputText t # log a # es) = d # loader_writes es"
  by (simp_all add: proj_defs)

subsection \<open>The first candidate that probes and loads wins\<close>

text \<open>
  Claim C1. Whenever some candidate both probes successfully and loads successfully, the
  run ends normally with the handle of the first such candidate \<open>c\<close> in the \<open>model\<close>
  slot, the success text on the page and the line naming \<open>c\<close> as the source as its last
  effect. The locations fetched are the candidates before \<open>c\<close> and then \<open>c\<close>; the
  loader is called on those of them whose probe succeeded and then on \<open>c\<close>; nothing
  after \<open>c\<close> is fetched or loaded, and no promise is left unawaited.
\<close>

theorem first_usable_candidate_is_loaded:
  assumes "tf env = TfLayers ld"
    and "find (usable env ld) cands = Some c"
    and "ld c = Inr m"
  shows "snd (locateAndLoad env cands) = Normal \<and>
     model (run_effects s (fst (locateAndLoad env cands))) = Some m \<and>
     output_textContent (run_effects s (fst (locateAndLoad env cands))) =
       ''Model loaded. Upload an image to start.'' \<and>
     last (fst (locateAndLoad env cands)) =
       log [Str ''Model loaded successfully from'', Str c, Handle m] \<and>
     model_writes (fst (locateAndLoad env cands)) = [m] \<and>
     fetched (fst (locateAndLoad env cands)) = takeWhile (Not \<circ> usable env ld) cands @ [c] \<and>
     load_attempts (fst (locateAndLoad env cands)) =
       filter (probe_succeeds env) (takeWhile (Not \<circ> usable env ld) cands) @ [c] \<and>
     detached (fst (locateAndLoad env cands)) = []"
proof -
  let ?es = "fst (locateAndLoad env cands)"
  note eq = locate_found [OF assms(1,2)]
  have pc: "probe_succeeds env c"
    using assms(2) by (auto simp: find_Some_iff usable_def)
  have mw: "model_writes ?es = [m]"
    using assms by (simp add: eq preamble_proj loop_model_writes)
  have ow: "output_writes ?es = [''Loading model...'', ''Model loaded. Upload an image to start.'']"
    using assms by (simp add: eq preamble_proj loop_output_writes)
  have "snd (locateAndLoad env cands) = Normal" by (simp add: eq)
  moreover have "model (run_effects s ?es) = Some m"
    by (simp add: model_run_effects mw)
  moreover have "output_textContent (run_effects s ?es) = ''Model loaded. Upload an image to start.''"
    by (simp add: output_run_effects ow)
  moreover have "last ?es = log [Str ''Model loaded successfully from'', Str c, Handle m]"
    using loop_found_nonempty [OF assms(2), of None] loop_last [OF assms(2,3), of None]
    by (simp add: eq)
  moreover have "fetched ?es = takeWhile (Not \<circ> usable env ld) cands @ [c]"
    by (simp add: eq preamble_proj loop_fetched attempted_found [OF assms(2)])
  moreover have "load_attempts ?es =
      filter (probe_succeeds env) (takeWhile (Not \<circ> usable env ld) cands) @ [c]"
    using pc by (simp add: eq preamble_proj loop_load_attempts attempted_found [OF assms(2)])
  moreover have "detached ?es = []"
    by (simp add: eq preamble_proj loop_detached)
  ultimately show ?thesis using mw by simp
qed

lemmas ex_defs = ex_env_def ex_load_def ex_fetch_def ex_state_def MODEL_CANDIDATES_def loadModel_def
  usable_def probe_succeeds_def load_succeeds_def tryFetchInfo_def try_catch_def bind_ex_def

theorem first_usable_candidate_is_loaded_witness:
  "tf ex_env = TfLayers ex_load \<and>
   find (usable ex_env ex_load) MODEL_CANDIDATES = Some ''model.json'' \<and>
   ex_load ''model.json'' = Inr 7 \<and>
   snd (loadModel ex_env) = Normal \<and>
   model (run_effects ex_state (fst (loadModel ex_env))) = Some 7 \<and>
   fetched (fst (loadModel ex_env)) = [''./model.json'', ''/model.json'', ''model.json''] \<and>
   load_attempts (fst (loadModel ex_env)) = [''/model.json'', ''model.json'']"
proof -
  have h1: "tf ex_env = TfLayers ex_load" by (simp add: ex_env_def)
  have h2: "find (usable ex_env ex_load) MODEL_CANDIDATES = Some ''model.json''"
    by (simp add: ex_defs)
  have h3: "ex_load ''model.json'' = Inr 7" by (simp add: ex_load_def)
  have tw: "takeWhile (Not \<circ> usable ex_env ex_load) MODEL_CANDIDATES = [''./model.json'', ''/model.json'']"
    by (simp add: ex_defs)
  show ?thesis
    using first_usable_candidate_is_loaded [OF h1 h2 h3, of ex_state] h1 h2 h3
    by (simp add: loadModel_def tw) (simp add: ex_defs)
qed

subsection \<open>What a whole run fetches, loads and writes\<close>

lemma find_usable_cases:
  obtains (none) "find (usable env ld) cs = None"
  | (found) c m where "find (usable env ld) cs = Some c" and "ld c = Inr m"
proof (cases "find (usable env ld) cs")
  case None
  then show ?thesis by (rule none)
next
  case (Some c)
  then have "usable env ld c" by (auto simp: find_Some_iff)
  then obtain m where "ld c = Inr m" by (auto simp: usable_iff)
  with Some show ?thesis by (rule found)
qed

lemma proj_Cons:
  "fetched (e # es) = fetched_of e @ fetched es"
  "load_attempts (e # es) = load_attempt_of e @ load_attempts es"
  "model_writes (e # es) = model_write_of e @ model_writes es"
  "output_writes (e # es) = output_write_of e @ output_writes es"
  "loader_writes (e # es) = loader_write_of e @ loader_writes es"
  "console_lines (e # es) = console_line_of e @ console_lines es"
  "fetch_results (e # es) = concat (map fetch_result_of (console_line_of e)) @ fetch_results es"
  "detached (e # es) = detach_of e @ detached es"
  by (simp_all add: proj_defs)

lemma proj_Nil:
  "fetched [] = []" "load_attempts [] = []" "model_writes [] = []" "output_writes [] = []"
  "loader_writes [] = []" "console_lines [] = []" "fetch_results [] = []" "detached [] = []"
  by (simp_all add: proj_defs)

lemmas console_defs = log_def warn_def error_def

lemma locate_no_runtime:
  "tf env = TfUndefined \<Longrightarrow> locateAndLoad env cs =
     ([SetLoaderDisplay ''block'', SetOutputText ''Loading model...'',
       log [Str ''Starting model load sequence...''],
       SetLoaderDisplay ''none'',
       SetOutputText ''TensorFlow.js not loaded. Check network/CSP.'',
       error [Str ''tf is undefined; TF.js script may be blocked or failed to load.'']], Normal)"
  "tf env = TfWithoutLoader \<Longrightarrow> locateAndLoad env cs =
     ([SetLoaderDisplay ''block'', SetOutputText ''Loading model...'',
       log [Str ''Starting model load sequence...''],
       SetLoaderDisplay ''none'',
       SetOutputText ''Incompatible TF.js build: loadLayersModel missing.'',
       error [Str ''tf.loadLayersModel is not a function. TF.js build missing layers API? tf:'',
              TfObject]], Normal)"
  by (simp_all add: locateAndLoad_def after_def)

lemma locate_load_attempts:
  "load_attempts (fst (locateAndLoad env cs)) =
     (case tf env of TfLayers ld \<Rightarrow> filter (probe_succeeds env) (attempted env ld cs) | _ \<Rightarrow> [])"
proof (cases "tf env")
  case TfUndefined
  then show ?thesis by (simp add: locate_no_runtime proj_defs)
next
  case TfWithoutLoader
  then show ?thesis by (simp add: locate_no_runtime proj_defs)
next
  case (TfLayers ld)
  show ?thesis
  proof (cases rule: find_usable_cases [of env ld cs])
    case none
    then show ?thesis
      using TfLayers
      by (simp add: locate_exhausted [OF TfLayers none] proj_append proj_Cons console_defs
          loop_load_attempts reprobe_proj)
  next
    case (found c m)
    then show ?thesis
      using TfLayers
      by (simp add: locate_found [OF TfLayers found(1)] preamble_proj loop_load_attempts)
  qed
qed

lemma locate_fetch_results:
  "fetch_results (fst (locateAndLoad env cs)) =
     (case tf env of TfLayers ld \<Rightarrow> map (\<lambda>c. (c, probe env c)) (attempted env ld cs) | _ \<Rightarrow> [])"
proof (cases "tf env")
  case TfUndefined
  then show ?thesis by (simp add: locate_no_runtime proj_defs)
next
  case TfWithoutLoader
  then show ?thesis by (simp add: locate_no_runtime proj_defs)
next
  case (TfLayers ld)
  have pre: "fetch_results (SetLoaderDisplay d # SetOutputText t #
      log [Str ''Starting model load sequence...''] # es) = fetch_results es" for d t and es :: "'a effect list"
    by (simp add: proj_defs)
  show ?thesis
  proof (cases rule: find_usable_cases [of env ld cs])
    case none
    show ?thesis
      using TfLayers
      by (simp add: locate_exhausted [OF TfLayers none] proj_append proj_Cons console_defs
          loop_fetch_results reprobe_proj)
  next
    case (found c m)
    then show ?thesis
      using TfLayers
      by (simp add: locate_found [OF TfLayers found(1)] pre loop_fetch_results)
  qed
qed

lemma locate_fetched:
  "fetched (fst (locateAndLoad env cs)) =
     (case tf env of
        TfLayers ld \<Rightarrow> attempted env ld cs @ (if find (usable env ld) cs = None then cs else [])
      | _ \<Rightarrow> [])"
proof (cases "tf env")
  case TfUndefined
  then show ?thesis by (simp add: locate_no_runtime proj_defs)
next
  case TfWithoutLoader
  then show ?thesis by (simp add: locate_no_runtime proj_defs)
next
  case (TfLayers ld)
  show ?thesis
  proof (cases rule: find_usable_cases [of env ld cs])
    case none
    show ?thesis
      using TfLayers none
      by (simp add: locate_exhausted [OF TfLayers none] proj_append proj_Cons console_defs
          loop_fetched reprobe_proj)
  next
    case (found c m)
    then show ?thesis
      using TfLayers
      by (simp add: locate_found [OF TfLayers found(1)] preamble_proj loop_fetched)
  qed
qed

lemma locate_model_writes:
  "model_writes (fst (locateAndLoad env cs)) =
     (case tf env of
        TfLayers ld \<Rightarrow>
          (case find (usable env ld) cs of None \<Rightarrow> []
           | Some c \<Rightarrow> (case ld c of Inr m \<Rightarrow> [m] | Inl e \<Rightarrow> []))
      | _ \<Rightarrow> [])"
proof (cases "tf env")
  case TfUndefined
  then show ?thesis by (simp add: locate_no_runtime proj_defs)
next
  case TfWithoutLoader
  then show ?thesis by (simp add: locate_no_runtime proj_defs)
next
  case (TfLayers ld)
  show ?thesis
  proof (cases rule: find_usable_cases [of env ld cs])
    case none
    show ?thesis
      using TfLayers none
      by (simp add: locate_exhausted [OF TfLayers none] proj_append proj_Cons console_defs
          loop_model_writes reprobe_proj)
  next
    case (found c m)
    then show ?thesis
      using TfLayers
      by (simp add: locate_found [OF TfLayers found(1)] preamble_proj loop_model_writes)
  qed
qed

lemma locateAndLoad_completes: "snd (locateAndLoad env cs) = Normal"
proof (cases "tf env")
  case TfUndefined
  then show ?thesis by (simp add: locate_no_runtime)
next
  case TfWithoutLoader
  then show ?thesis by (simp add: locate_no_runtime)
next
  case (TfLayers ld)
  show ?thesis
  proof (cases rule: find_usable_cases [of env ld cs])
    case none
    then show ?thesis by (simp add: locate_exhausted [OF TfLayers])
  next
    case (found c m)
    then show ?thesis by (simp add: locate_found [OF TfLayers])
  qed
qed

subsection \<open>No runtime, no probing\<close>

text \<open>
  Claim C2. When \<open>tf\<close> is undefined, or defined without a function \<open>loadLayersModel\<close>,
  the run ends at once: nothing is fetched, the loader is never called, no probe result
  is logged, the \<open>model\<close> slot keeps its value and the loader element is hidden. The two
  cases are told apart: each leaves its own text on the page and its own error line.
\<close>

theorem runtime_unavailable_before_any_candidate:
  assumes "tf env = TfUndefined \<or> tf env = TfWithoutLoader"
  shows "snd (locateAndLoad env cands) = Normal \<and>
     fetched (fst (locateAndLoad env cands)) = [] \<and>
     load_attempts (fst (locateAndLoad env cands)) = [] \<and>
     fetch_results (fst (locateAndLoad env cands)) = [] \<and>
     detached (fst (locateAndLoad env cands)) = [] \<and>
     model (run_effects s (fst (locateAndLoad env cands))) = model s \<and>
     loader_display (run_effects s (fst (locateAndLoad env cands))) = ''none'' \<and>
     output_textContent (run_effects s (fst (locateAndLoad env cands))) =
       (if tf env = TfUndefined then ''TensorFlow.js not loaded. Check network/CSP.''
        else ''Incompatible TF.js build: loadLayersModel missing.'') \<and>
     last (fst (locateAndLoad env cands)) =
       (if tf env = TfUndefined
        then error [Str ''tf is undefined; TF.js script may be blocked or failed to load.'']
        else error [Str ''tf.loadLayersModel is not a function. TF.js build missing layers API? tf:'',
                    TfObject]) \<and>
     output_textContent (run_effects s (fst (locateAndLoad (env\<lparr>tf := TfUndefined\<rparr>) cands))) \<noteq>
     output_textContent (run_effects s (fst (locateAndLoad (env\<lparr>tf := TfWithoutLoader\<rparr>) cands)))"
proof -
  have distinct: "output_textContent (run_effects s (fst (locateAndLoad (env\<lparr>tf := TfUndefined\<rparr>) cands))) \<noteq>
     output_textContent (run_effects s (fst (locateAndLoad (env\<lparr>tf := TfWithoutLoader\<rparr>) cands)))"
    by (simp add: locate_no_runtime output_run_effects proj_Cons proj_Nil console_defs)
  from assms show ?thesis
  proof
    assume u: "tf env = TfUndefined"
    show ?thesis
      using distinct
      by (simp add: locate_no_runtime(1) [OF u] u model_run_effects output_run_effects
          loader_run_effects proj_Cons proj_Nil console_defs)
  next
    assume w: "tf env = TfWithoutLoader"
    show ?thesis
      using distinct
      by (simp add: locate_no_runtime(2) [OF w] w model_run_effects output_run_effects
          loader_run_effects proj_Cons proj_Nil console_defs)
  qed
qed

theorem runtime_unavailable_before_any_candidate_witness:
  "(tf (ex_env\<lparr>tf := TfWithoutLoader\<rparr>) = TfUndefined \<or>
    tf (ex_env\<lparr>tf := TfWithoutLoader\<rparr>) = TfWithoutLoader) \<and>
   snd (loadModel (ex_env\<lparr>tf := TfWithoutLoader\<rparr>)) = Normal \<and>
   fetched (fst (loadModel (ex_env\<lparr>tf := TfWithoutLoader\<rparr>))) = [] \<and>
   fetch_results (fst (loadModel (ex_env\<lparr>tf := TfWithoutLoader\<rparr>))) = [] \<and>
   output_textContent (run_effects ex_state (fst (loadModel (ex_env\<lparr>tf := TfWithoutLoader\<rparr>)))) =
     ''Incompatible TF.js build: loadLayersModel missing.''"
proof -
  have h: "tf (ex_env\<lparr>tf := TfWithoutLoader\<rparr>) = TfUndefined \<or>
    tf (ex_env\<lparr>tf := TfWithoutLoader\<rparr>) = TfWithoutLoader"
    by simp
  show ?thesis
    using runtime_unavailable_before_any_candidate [OF h, of MODEL_CANDIDATES ex_state]
    by (simp add: loadModel_def)
qed

subsection \<open>A failed probe: the result is logged and the loader is not called\<close>

text \<open>
  Claim C3. When the probe of a candidate \<open>c\<close> reports failure (the fetch threw, or the
  response is not ok), the loop logs the probe result, warns, and goes on with the rest
  of the list with \<open>lastError\<close> unchanged: the loader is not called in that step. In a
  whole run the loader is never called on \<open>c\<close>, and whenever \<open>c\<close> was fetched its probe
  result is among the logged ones.
\<close>

theorem failed_probe_skips_load:
  assumes "snd (tryFetchInfo env c) = Inr info" and "\<not> ok info"
  shows "candidates_loop env ld (c # rest) lastError =
       after [log [Str ''Probing candidate:'', Str c],
              Fetch c,
              log [Str ''Fetch result for'', Str c, Obj info],
              warn [Str ''Fetch failed or not OK for'', Str c, Obj info]]
         (candidates_loop env ld rest lastError) \<and>
     c \<notin> set (load_attempts (fst (locateAndLoad env cands))) \<and>
     (c \<in> set (fetched (fst (locateAndLoad env cands))) \<longrightarrow>
        (c, info) \<in> set (fetch_results (fst (locateAndLoad env cands))))"
proof -
  from assms have info: "info = probe env c" and nok: "\<not> ok (probe env c)"
    by (simp_all add: snd_tryFetchInfo)
  have step: "candidates_loop env ld (c # rest) lastError =
       after [log [Str ''Probing candidate:'', Str c],
              Fetch c,
              log [Str ''Fetch result for'', Str c, Obj info],
              warn [Str ''Fetch failed or not OK for'', Str c, Obj info]]
         (candidates_loop env ld rest lastError)"
    using nok by (simp add: loop_Cons info del: candidates_loop.simps)
  have noload: "c \<notin> set (load_attempts (fst (locateAndLoad env cands)))"
    using nok by (simp add: locate_load_attempts probe_succeeds_iff split: tf_global.splits)
  have logged: "(c, info) \<in> set (fetch_results (fst (locateAndLoad env cands)))"
    if "c \<in> set (fetched (fst (locateAndLoad env cands)))"
  proof (cases "tf env")
    case TfUndefined
    with that show ?thesis by (simp add: locate_fetched)
  next
    case TfWithoutLoader
    with that show ?thesis by (simp add: locate_fetched)
  next
    case (TfLayers l)
    have "c \<in> set (attempted env l cands)"
    proof (cases "find (usable env l) cands")
      case None
      with that TfLayers show ?thesis by (simp add: locate_fetched attempted_none)
    next
      case (Some a)
      with that TfLayers show ?thesis by (simp add: locate_fetched)
    qed
    then show ?thesis
      using TfLayers by (simp add: locate_fetch_results info image_iff)
  qed
  from step noload logged show ?thesis by blast
qed

theorem failed_probe_skips_load_witness:
  "snd (tryFetchInfo ex_env ''./model.json'') = Inr (ProbeError ''TypeError: Failed to fetch'') \<and>
   \<not> ok (ProbeError ''TypeError: Failed to fetch'') \<and>
   ''./model.json'' \<in> set (fetched (fst (loadModel ex_env))) \<and>
   ''./model.json'' \<notin> set (load_attempts (fst (loadModel ex_env))) \<and>
   (''./model.json'', ProbeError ''TypeError: Failed to fetch'') \<in> set (fetch_results (fst (loadModel ex_env)))"
proof -
  have h1: "snd (tryFetchInfo ex_env ''./model.json'') = Inr (ProbeError ''TypeError: Failed to fetch'')"
    by (simp add: ex_defs)
  have h2: "\<not> ok (ProbeError ''TypeError: Failed to fetch'')" by simp
  have f: "''./model.json'' \<in> set (fetched (fst (loadModel ex_env)))"
    by (simp add: ex_defs locateAndLoad_def after_def proj_defs)
  show ?thesis
    using failed_probe_skips_load [OF h1 h2, of ex_load "[]" None MODEL_CANDIDATES] h1 f
    by (simp add: loadModel_def)
qed

subsection \<open>A failed load after a successful probe\<close>

lemma find_unusable_append:
  "find P pre = None \<Longrightarrow> find P (pre @ xs) = find P xs"
  by (induction pre) (simp_all split: if_splits)

lemma attempted_append:
  assumes "find (usable env ld) pre = None"
  shows "attempted env ld (pre @ xs) = pre @ attempted env ld xs"
proof -
  from assms have "\<forall>x\<in>set pre. (Not \<circ> usable env ld) x"
    by (simp add: find_None_iff)
  then show ?thesis
    by (simp add: attempted_def)
qed

lemma attempted_Cons_unusable:
  "\<not> usable env ld c \<Longrightarrow> attempted env ld (c # rest) = c # attempted env ld rest"
  by (simp add: attempted_def)

lemma take1_attempted: "take 1 (attempted env ld rest) = take 1 rest"
  by (cases rest) (simp_all add: attempted_def)

lemma load_errors_append:
  "load_errors env ld (xs @ ys) = load_errors env ld xs @ load_errors env ld ys"
  by (simp add: load_errors_def)

lemma loop_append:
  "find (usable env ld) pre = None \<Longrightarrow>
   candidates_loop env ld (pre @ xs) le =
     after (fst (candidates_loop env ld pre le))
       (candidates_loop env ld xs
          (if load_errors env ld pre = [] then le else Some (last (load_errors env ld pre))))"
proof (induction pre arbitrary: le)
  case Nil
  then show ?case by (simp add: after_def)
next
  case (Cons a pre)
  from Cons.prems have nu: "\<not> usable env ld a" and rest: "find (usable env ld) pre = None"
    by (simp_all split: if_splits)
  show ?case
  proof (cases "ok (probe env a)")
    case False
    then show ?thesis
      using Cons.IH [OF rest, of le]
      by (simp add: loop_Cons [of env ld a] load_errors_Cons after_def del: candidates_loop.simps)
  next
    case True
    with nu obtain e where e: "ld a = Inl e"
      by (cases "ld a") (auto simp: usable_iff)
    show ?thesis
      using True e Cons.IH [OF rest, of "Some e"]
      by (simp add: loop_Cons [of env ld a] load_errors_Cons after_def del: candidates_loop.simps)
  qed
qed

lemma loop_fetch_failed_lines:
  "(Warn, [Str ''Fetch failed or not OK for'', Str x, Obj i])
     \<in> set (console_lines (fst (candidates_loop env ld cs le))) \<Longrightarrow> \<not> ok (probe env x)"
proof (induction cs arbitrary: le)
  case Nil
  then show ?case by (simp add: proj_Nil)
next
  case (Cons a cs)
  show ?case
  proof (cases "ok (probe env a)")
    case False
    with Cons.prems have "x = a \<or> (Warn, [Str ''Fetch failed or not OK for'', Str x, Obj i])
        \<in> set (console_lines (fst (candidates_loop env ld cs le)))"
      by (auto simp add: loop_Cons [of env ld a] proj_append proj_Cons proj_Nil console_defs
          simp del: candidates_loop.simps)
    with False Cons.IH show ?thesis by blast
  next
    case True
    show ?thesis
    proof (cases "ld a")
      case (Inl e)
      with True Cons.prems have "(Warn, [Str ''Fetch failed or not OK for'', Str x, Obj i])
          \<in> set (console_lines (fst (candidates_loop env ld cs (Some e))))"
        by (simp add: loop_Cons [of env ld a] proj_append proj_Cons proj_Nil console_defs
            del: candidates_loop.simps)
      with Cons.IH show ?thesis by blast
    next
      case (Inr m)
      with True Cons.prems show ?thesis
        by (simp add: loop_Cons [of env ld a] proj_Cons proj_Nil console_defs
            del: candidates_loop.simps)
    qed
  qed
qed

lemma locate_console_lines:
  assumes "tf env = TfLayers ld"
  shows "console_lines (fst (locateAndLoad env cs)) =
     (Info, [Str ''Starting model load sequence...'']) #
     console_lines (fst (candidates_loop env ld cs None)) @
     (case find (usable env ld) cs of
        None \<Rightarrow>
          [(Err, [Str ''Model load failed for all candidate paths. Last error:'',
                  (if load_errors env ld cs = [] then Null
                   else Thrown (last (load_errors env ld cs)))]),
           (Err, [Str ''Network probes summary:''])]
      | Some c \<Rightarrow> [])"
proof (cases rule: find_usable_cases [of env ld cs])
  case none
  then show ?thesis
    by (simp add: locate_exhausted [OF assms none] proj_append proj_Cons proj_Nil console_defs
        reprobe_proj js_of_lastError_def)
next
  case (found c m)
  then show ?thesis
    by (simp add: locate_found [OF assms found(1)] proj_Cons console_defs)
qed

text \<open>
  Claim C4. Let \<open>c\<close> be a candidate that a run reaches (no candidate before it is
  usable), whose probe succeeds and on which the loader throws \<open>e\<close>. The step of the loop
  at \<open>c\<close> logs the probe result as a result, calls the loader, warns that the load failed
  with \<open>e\<close>, and goes on with the rest of the list with \<open>lastError\<close> set to \<open>e\<close>. In the
  whole run the loader is called on \<open>c\<close> in its turn, the load-failure warning with \<open>e\<close>
  is on the console and no probe-failure warning for \<open>c\<close> is, and the candidate after
  \<open>c\<close>, if there is one, is fetched next. The run does not end at \<open>c\<close>: if a later
  candidate is usable, the first such one is loaded; if none is, the reported last error
  is \<open>e\<close>, or the error of a later load that failed after it.
\<close>

theorem failed_load_is_recorded_and_run_continues:
  assumes "tf env = TfLayers ld"
    and "find (usable env ld) pre = None"
    and "snd (tryFetchInfo env c) = Inr info" and "ok info" and "ld c = Inl e"
  shows "candidates_loop env ld (c # rest) lastError =
       after [log [Str ''Probing candidate:'', Str c],
              Fetch c,
              log [Str ''Fetch result for'', Str c, Obj info],
              log [Str ''Attempting tf.loadLayersModel('', Str c, Str '')''],
              LoadLayersModel c,
              warn [Str ''tf.loadLayersModel failed for'', Str c, Thrown e]]
         (candidates_loop env ld rest (Some e)) \<and>
     candidates_loop env ld [c] lastError =
       ([log [Str ''Probing candidate:'', Str c],
         Fetch c,
         log [Str ''Fetch result for'', Str c, Obj info],
         log [Str ''Attempting tf.loadLayersModel('', Str c, Str '')''],
         LoadLayersModel c,
         warn [Str ''tf.loadLayersModel failed for'', Str c, Thrown e]],
        Exhausted (Some e)) \<and>
     snd (locateAndLoad env (pre @ c # rest)) = Normal \<and>
     load_attempts (fst (locateAndLoad env (pre @ c # rest))) =
       filter (probe_succeeds env) pre @ c # filter (probe_succeeds env) (attempted env ld rest) \<and>
     (Warn, [Str ''tf.loadLayersModel failed for'', Str c, Thrown e])
       \<in> set (console_lines (fst (locateAndLoad env (pre @ c # rest)))) \<and>
     (Warn, [Str ''Fetch failed or not OK for'', Str c, Obj info])
       \<notin> set (console_lines (fst (locateAndLoad env (pre @ c # rest)))) \<and>
     (c, info) \<in> set (fetch_results (fst (locateAndLoad env (pre @ c # rest)))) \<and>
     take (Suc (length pre) + length (take 1 rest)) (fetched (fst (locateAndLoad env (pre @ c # rest)))) =
       pre @ c # take 1 rest \<and>
     (case find (usable env ld) rest of
        None \<Rightarrow>
          (Err, [Str ''Model load failed for all candidate paths. Last error:'',
                 Thrown (last (e # load_errors env ld rest))])
            \<in> set (console_lines (fst (locateAndLoad env (pre @ c # rest)))) \<and>
          model_writes (fst (locateAndLoad env (pre @ c # rest))) = []
      | Some c' \<Rightarrow>
          fetched (fst (locateAndLoad env (pre @ c # rest))) =
            pre @ c # takeWhile (Not \<circ> usable env ld) rest @ [c'] \<and>
          model_writes (fst (locateAndLoad env (pre @ c # rest))) =
            (case ld c' of Inr m \<Rightarrow> [m] | Inl x \<Rightarrow> []))"
proof -
  let ?cs = "pre @ c # rest"
  let ?es = "fst (locateAndLoad env ?cs)"
  from assms(3,4) have info: "info = probe env c" and isok: "ok (probe env c)"
    by (simp_all add: snd_tryFetchInfo)
  have ps: "probe_succeeds env c" using isok by (simp add: probe_succeeds_iff)
  have nu: "\<not> usable env ld c" using assms(5) by (simp add: usable_iff)
  have step: "candidates_loop env ld (c # rest') le =
       after [log [Str ''Probing candidate:'', Str c],
              Fetch c,
              log [Str ''Fetch result for'', Str c, Obj info],
              log [Str ''Attempting tf.loadLayersModel('', Str c, Str '')''],
              LoadLayersModel c,
              warn [Str ''tf.loadLayersModel failed for'', Str c, Thrown e]]
         (candidates_loop env ld rest' (Some e))" for rest' le
    using isok assms(5) by (simp add: loop_Cons [of env ld c] info del: candidates_loop.simps)
  have single: "candidates_loop env ld [c] lastError =
       ([log [Str ''Probing candidate:'', Str c],
         Fetch c,
         log [Str ''Fetch result for'', Str c, Obj info],
         log [Str ''Attempting tf.loadLayersModel('', Str c, Str '')''],
         LoadLayersModel c,
         warn [Str ''tf.loadLayersModel failed for'', Str c, Thrown e]],
        Exhausted (Some e))"
    by (simp add: step [of "[]" lastError] after_def del: candidates_loop.simps(2))
  have fnd: "find (usable env ld) ?cs = find (usable env ld) rest"
    using nu by (simp add: find_unusable_append [OF assms(2)])
  have att: "attempted env ld ?cs = pre @ c # attempted env ld rest"
    using nu by (simp add: attempted_append [OF assms(2)] attempted_Cons_unusable)
  have lerr: "load_errors env ld ?cs = load_errors env ld pre @ e # load_errors env ld rest"
    using isok assms(5) by (simp add: load_errors_append load_errors_Cons)
  have loop: "fst (candidates_loop env ld ?cs None) =
      fst (candidates_loop env ld pre None) @
      [log [Str ''Probing candidate:'', Str c],
       Fetch c,
       log [Str ''Fetch result for'', Str c, Obj info],
       log [Str ''Attempting tf.loadLayersModel('', Str c, Str '')''],
       LoadLayersModel c,
       warn [Str ''tf.loadLayersModel failed for'', Str c, Thrown e]] @
      fst (candidates_loop env ld rest (Some e))"
    by (simp add: loop_append [OF assms(2)] step del: candidates_loop.simps)
  have la: "load_attempts ?es =
      filter (probe_succeeds env) pre @ c # filter (probe_succeeds env) (attempted env ld rest)"
    using ps by (simp add: locate_load_attempts assms(1) att)
  have warned: "(Warn, [Str ''tf.loadLayersModel failed for'', Str c, Thrown e]) \<in> set (console_lines ?es)"
    by (simp add: locate_console_lines [OF assms(1)] loop proj_append proj_Cons proj_Nil console_defs)
  have nofail: "(Warn, [Str ''Fetch failed or not OK for'', Str c, Obj info]) \<notin> set (console_lines ?es)"
  proof
    assume "(Warn, [Str ''Fetch failed or not OK for'', Str c, Obj info]) \<in> set (console_lines ?es)"
    then have "(Warn, [Str ''Fetch failed or not OK for'', Str c, Obj info])
        \<in> set (console_lines (fst (candidates_loop env ld ?cs None)))"
      by (simp add: locate_console_lines [OF assms(1)] split: option.splits)
    then have "\<not> ok (probe env c)" by (rule loop_fetch_failed_lines)
    with isok show False by simp
  qed
  have logged: "(c, info) \<in> set (fetch_results ?es)"
    by (simp add: locate_fetch_results assms(1) att info)
  have ft: "fetched ?es = pre @ c # attempted env ld rest @
      (if find (usable env ld) rest = None then ?cs else [])"
    by (simp add: locate_fetched assms(1) att fnd)
  have "take (length (take 1 rest)) (attempted env ld rest @ zs) = take 1 rest" for zs
  proof (cases rest)
    case Nil
    then show ?thesis by simp
  next
    case (Cons r rs)
    then show ?thesis by (simp add: attempted_def)
  qed
  then have nxt: "take (Suc (length pre) + length (take 1 rest)) (fetched ?es) = pre @ c # take 1 rest"
    by (simp add: ft)
  have fin: "(case find (usable env ld) rest of
        None \<Rightarrow>
          (Err, [Str ''Model load failed for all candidate paths. Last error:'',
                 Thrown (last (e # load_errors env ld rest))]) \<in> set (console_lines ?es) \<and>
          model_writes ?es = []
      | Some c' \<Rightarrow>
          fetched ?es = pre @ c # takeWhile (Not \<circ> usable env ld) rest @ [c'] \<and>
          model_writes ?es = (case ld c' of Inr m \<Rightarrow> [m] | Inl x \<Rightarrow> []))"
  proof (cases "find (usable env ld) rest")
    case None
    then show ?thesis
      by (simp add: locate_console_lines [OF assms(1)] fnd lerr locate_model_writes assms(1))
  next
    case (Some c')
    then show ?thesis
      by (simp add: ft attempted_found [OF Some] locate_model_writes assms(1) fnd)
  qed
  have "snd (locateAndLoad env ?cs) = Normal" by (rule locateAndLoad_completes)
  with step [of rest lastError] single la warned nofail logged nxt fin show ?thesis
    by blast
qed

theorem failed_load_is_recorded_and_run_continues_witness:
  "tf ex_env = TfLayers ex_load \<and>
   find (usable ex_env ex_load) [''./model.json''] = None \<and>
   snd (tryFetchInfo ex_env ''/model.json'') =
     Inr (ProbeInfo True 200 ''https://host/model.json'' None ''<!doctype html>'') \<and>
   ok (ProbeInfo True 200 ''https://host/model.json'' None ''<!doctype html>'') \<and>
   ex_load ''/model.json'' = Inl (JsError ''SyntaxError'' ''Unexpected token < in JSON at position 0'') \<and>
   MODEL_CANDIDATES = [''./model.json''] @ ''/model.json'' # tl (tl MODEL_CANDIDATES) \<and>
   load_attempts (fst (loadModel ex_env)) = [''/model.json'', ''model.json''] \<and>
   (Warn, [Str ''tf.loadLayersModel failed for'', Str ''/model.json'',
           Thrown (JsError ''SyntaxError'' ''Unexpected token < in JSON at position 0'')])
     \<in> set (console_lines (fst (loadModel ex_env))) \<and>
   fetched (fst (loadModel ex_env)) = [''./model.json'', ''/model.json'', ''model.json''] \<and>
   model_writes (fst (loadModel ex_env)) = [7] \<and>
   (Err, [Str ''Model load failed for all candidate paths. Last error:'',
          Thrown (JsError ''SyntaxError'' ''Unexpected token < in JSON at position 0'')])
     \<in> set (console_lines (fst (locateAndLoad ex_env [''./model.json'', ''/model.json''])))"
proof -
  let ?e = "JsError ''SyntaxError'' ''Unexpected token < in JSON at position 0''"
  let ?rest = "tl (tl MODEL_CANDIDATES)"
  have h1: "tf ex_env = TfLayers ex_load" by (simp add: ex_env_def)
  have h2: "find (usable ex_env ex_load) [''./model.json''] = None"
    by (simp add: ex_defs)
  have h3: "snd (tryFetchInfo ex_env ''/model.json'') =
     Inr (ProbeInfo True 200 ''https://host/model.json'' None ''<!doctype html>'')"
    by (simp add: ex_defs)
  have h4: "ok (ProbeInfo True 200 ''https://host/model.json'' None ''<!doctype html>'')" by simp
  have h5: "ex_load ''/model.json'' = Inl ?e"
    by (simp add: ex_load_def)
  have split: "MODEL_CANDIDATES = [''./model.json''] @ ''/model.json'' # ?rest"
    by (simp add: MODEL_CANDIDATES_def)
  have fr: "find (usable ex_env ex_load) ?rest = Some ''model.json''"
    by (simp add: ex_defs)
  have tw: "takeWhile (Not \<circ> usable ex_env ex_load) ?rest = []"
    by (simp add: ex_defs)
  have at: "filter (probe_succeeds ex_env) (attempted ex_env ex_load ?rest) = [''model.json'']"
    by (simp add: attempted_def ex_defs)
  have pf: "\<not> probe_succeeds ex_env ''./model.json''"
    by (simp add: ex_defs)
  have ld: "ex_load ''model.json'' = Inr 7" by (simp add: ex_load_def)
  note run = failed_load_is_recorded_and_run_continues
    [where ld = ex_load and pre = "[''./model.json'']" and rest = ?rest and lastError = None,
      OF h1 h2 h3 h4 h5]
  note short = failed_load_is_recorded_and_run_continues
    [where ld = ex_load and pre = "[''./model.json'']" and rest = "[]" and lastError = None,
      OF h1 h2 h3 h4 h5]
  have whole: "load_attempts (fst (loadModel ex_env)) = [''/model.json'', ''model.json''] \<and>
     (Warn, [Str ''tf.loadLayersModel failed for'', Str ''/model.json'', Thrown ?e])
       \<in> set (console_lines (fst (loadModel ex_env))) \<and>
     fetched (fst (loadModel ex_env)) = [''./model.json'', ''/model.json'', ''model.json''] \<and>
     model_writes (fst (loadModel ex_env)) = [7]"
    using run unfolding split [symmetric] fr
    by (simp add: loadModel_def at pf tw ld)
  have last: "(Err, [Str ''Model load failed for all candidate paths. Last error:'', Thrown ?e])
     \<in> set (console_lines (fst (locateAndLoad ex_env [''./model.json'', ''/model.json''])))"
    using short by simp
  from h1 h2 h3 h4 h5 split whole last show ?thesis by blast
qed

subsection \<open>Every candidate fails\<close>

text \<open>
  Claim C5. When no candidate both probes and loads successfully, the run ends normally
  with the failure text on the page, the loader element hidden and the \<open>model\<close> slot
  untouched. The error line of the failure carries \<open>lastError\<close>: the error of the last
  load that was tried, in list order, and \<open>null\<close> when no probe succeeded, so no load was
  tried. The probe results logged by the loop (the lines \<open>Fetch result for\<close>) are one per
  candidate, in the order of the list, each being what \<open>tryFetchInfo\<close> returned for it.
\<close>

theorem all_candidates_fail:
  assumes "tf env = TfLayers ld" and "\<forall>c\<in>set cands. \<not> usable env ld c"
  shows "snd (locateAndLoad env cands) = Normal \<and>
     model (run_effects s (fst (locateAndLoad env cands))) = model s \<and>
     loader_display (run_effects s (fst (locateAndLoad env cands))) = ''none'' \<and>
     output_textContent (run_effects s (fst (locateAndLoad env cands))) =
       ''Model not loaded. See console for details.'' \<and>
     (Err, [Str ''Model load failed for all candidate paths. Last error:'',
            (if load_errors env ld cands = [] then Null
             else Thrown (last (load_errors env ld cands)))])
       \<in> set (console_lines (fst (locateAndLoad env cands))) \<and>
     map fst (fetch_results (fst (locateAndLoad env cands))) = cands \<and>
     map (\<lambda>(c, info). (c, Inr info)) (fetch_results (fst (locateAndLoad env cands))) =
       map (\<lambda>c. (c, snd (tryFetchInfo env c))) cands"
proof -
  let ?es = "fst (locateAndLoad env cands)"
  from assms(2) have none: "find (usable env ld) cands = None"
    by (simp add: find_None_iff)
  note eq = locate_exhausted [OF assms(1) none]
  have mw: "model_writes ?es = []"
    using assms(1) none by (simp add: locate_model_writes)
  have ow: "output_writes ?es = [''Loading model...'', ''Model not loaded. See console for details.'']"
    using none
    by (simp add: eq proj_append proj_Cons console_defs loop_output_writes reprobe_proj)
  have lw: "loader_writes ?es = [''block'', ''none'']"
    using none
    by (simp add: eq proj_append proj_Cons console_defs loop_loader_writes reprobe_proj)
  have line: "(Err, [Str ''Model load failed for all candidate paths. Last error:'',
            (if load_errors env ld cands = [] then Null
             else Thrown (last (load_errors env ld cands)))]) \<in> set (console_lines ?es)"
    by (simp add: eq proj_append proj_Cons console_defs js_of_lastError_def)
  have fr: "fetch_results ?es = map (\<lambda>c. (c, probe env c)) cands"
    using assms(1) by (simp add: locate_fetch_results attempted_none [OF none])
  have "snd (locateAndLoad env cands) = Normal" by (simp add: eq)
  moreover have "model (run_effects s ?es) = model s"
    by (simp add: model_run_effects mw)
  moreover have "loader_display (run_effects s ?es) = ''none''"
    by (simp add: loader_run_effects lw)
  moreover have "output_textContent (run_effects s ?es) = ''Model not loaded. See console for details.''"
    by (simp add: output_run_effects ow)
  moreover have "map fst (fetch_results ?es) = cands"
    by (simp add: fr comp_def)
  moreover have "map (\<lambda>(c, info). (c, Inr info)) (fetch_results ?es) =
      map (\<lambda>c. (c, snd (tryFetchInfo env c))) cands"
    by (simp add: fr comp_def snd_tryFetchInfo)
  ultimately show ?thesis using line by simp
qed

theorem all_candidates_fail_witness:
  "tf (ex_env\<lparr>tf := TfLayers failing_load\<rparr>) = TfLayers failing_load \<and>
   find (usable (ex_env\<lparr>tf := TfLayers failing_load\<rparr>) failing_load) MODEL_CANDIDATES = None \<and>
   load_errors (ex_env\<lparr>tf := TfLayers failing_load\<rparr>) failing_load MODEL_CANDIDATES =
     [JsError ''Error'' ''no manifest at /model.json'', JsError ''Error'' ''no manifest at model.json''] \<and>
   snd (loadModel (ex_env\<lparr>tf := TfLayers failing_load\<rparr>)) = Normal \<and>
   (Err, [Str ''Model load failed for all candidate paths. Last error:'',
          Thrown (JsError ''Error'' ''no manifest at model.json'')])
     \<in> set (console_lines (fst (loadModel (ex_env\<lparr>tf := TfLayers failing_load\<rparr>)))) \<and>
   map fst (fetch_results (fst (loadModel (ex_env\<lparr>tf := TfLayers failing_load\<rparr>)))) = MODEL_CANDIDATES"
proof -
  let ?env = "ex_env\<lparr>tf := TfLayers failing_load\<rparr>"
  have h1: "tf ?env = TfLayers failing_load" by simp
  have h2: "\<forall>c\<in>set MODEL_CANDIDATES. \<not> usable ?env failing_load c"
    by (simp add: MODEL_CANDIDATES_def usable_def load_succeeds_def failing_load_def)
  have le: "load_errors ?env failing_load MODEL_CANDIDATES =
     [JsError ''Error'' ''no manifest at /model.json'', JsError ''Error'' ''no manifest at model.json'']"
    by (simp add: load_errors_def failing_load_def ex_defs)
  have none: "find (usable ?env failing_load) MODEL_CANDIDATES = None"
    using h2 by (simp add: find_None_iff)
  show ?thesis
    using all_candidates_fail [OF h1 h2, of ex_state] none le
    by (simp add: loadModel_def)
qed

subsection \<open>The model slot is written at most once\<close>

lemma model_writes_Nil_iff: "model_writes es = [] \<longleftrightarrow> (\<forall>e\<in>set es. model_write_of e = [])"
  by (simp add: model_writes_def)

lemma after_first_write_none: "model_writes es = [] \<Longrightarrow> after_first_write es = []"
  by (simp add: model_writes_Nil_iff after_first_write_def)

lemma after_first_write_append:
  "model_writes es = [] \<Longrightarrow> after_first_write (es @ fs) = after_first_write fs"
  by (simp add: model_writes_Nil_iff after_first_write_def)

lemma after_first_write_Cons:
  "after_first_write (e # es) = (if model_write_of e = [] then after_first_write es else e # es)"
  by (simp add: after_first_write_def)

lemma locate_after_first_write:
  "after_first_write (fst (locateAndLoad env cs)) =
     (case tf env of
        TfLayers ld \<Rightarrow>
          (case find (usable env ld) cs of None \<Rightarrow> []
           | Some c \<Rightarrow> (case ld c of Inr m \<Rightarrow> loaded_effects c m | Inl e \<Rightarrow> []))
      | _ \<Rightarrow> [])"
proof (cases "tf env")
  case TfUndefined
  then show ?thesis by (simp add: after_first_write_none locate_model_writes)
next
  case TfWithoutLoader
  then show ?thesis by (simp add: after_first_write_none locate_model_writes)
next
  case (TfLayers ld)
  show ?thesis
  proof (cases rule: find_usable_cases [of env ld cs])
    case none
    then show ?thesis
      using TfLayers by (simp add: after_first_write_none locate_model_writes)
  next
    case (found c m)
    then show ?thesis
      using TfLayers
      by (simp add: locate_found [OF TfLayers found(1)] after_first_write_Cons console_defs
          loop_after_first_write)
  qed
qed

text \<open>
  Claim C6. In any run the \<open>model\<close> slot is written at most once. From that write on,
  nothing is fetched, the loader is not called again and no promise is left unawaited:
  only the loader element, the page text and the console are written. A handle is
  written only if the loader returned it for a candidate whose probe had succeeded, and
  the slot ends with that handle, or with the value it had when nothing was written.
\<close>

theorem model_slot_written_at_most_once:
  "length (model_writes (fst (locateAndLoad env cands))) \<le> 1 \<and>
   model_writes (after_first_write (fst (locateAndLoad env cands))) =
     model_writes (fst (locateAndLoad env cands)) \<and>
   fetched (after_first_write (fst (locateAndLoad env cands))) = [] \<and>
   load_attempts (after_first_write (fst (locateAndLoad env cands))) = [] \<and>
   detached (after_first_write (fst (locateAndLoad env cands))) = [] \<and>
   (\<forall>m\<in>set (model_writes (fst (locateAndLoad env cands))).
      \<exists>ld c. tf env = TfLayers ld \<and> c \<in> set cands \<and> probe_succeeds env c \<and> ld c = Inr m) \<and>
   model (run_effects s (fst (locateAndLoad env cands))) =
     (case model_writes (fst (locateAndLoad env cands)) of [] \<Rightarrow> model s | m # ms \<Rightarrow> Some m)"
proof -
  let ?es = "fst (locateAndLoad env cands)"
  have le1: "length (model_writes ?es) \<le> 1"
    by (simp add: locate_model_writes split: tf_global.splits option.splits sum.splits)
  have tail: "model_writes (after_first_write ?es) = model_writes ?es \<and>
      fetched (after_first_write ?es) = [] \<and>
      load_attempts (after_first_write ?es) = [] \<and>
      detached (after_first_write ?es) = []"
    by (simp add: locate_after_first_write locate_model_writes loaded_effects_def
        proj_Cons proj_Nil console_defs split: tf_global.splits option.splits sum.splits)
  have src: "\<exists>ld c. tf env = TfLayers ld \<and> c \<in> set cands \<and> probe_succeeds env c \<and> ld c = Inr m"
    if "m \<in> set (model_writes ?es)" for m
  proof (cases "tf env")
    case TfUndefined
    with that show ?thesis by (simp add: locate_model_writes)
  next
    case TfWithoutLoader
    with that show ?thesis by (simp add: locate_model_writes)
  next
    case (TfLayers ld)
    show ?thesis
    proof (cases rule: find_usable_cases [of env ld cands])
      case none
      with that TfLayers show ?thesis by (simp add: locate_model_writes)
    next
      case (found c m')
      with that TfLayers have "m = m'" by (simp add: locate_model_writes)
      moreover from found(1) have "c \<in> set cands" and "usable env ld c"
        by (auto simp: find_Some_iff)
      ultimately show ?thesis
        using TfLayers found(2) by (auto simp: usable_def)
    qed
  qed
  have fin: "model (run_effects s ?es) = (case model_writes ?es of [] \<Rightarrow> model s | m # ms \<Rightarrow> Some m)"
    using le1 by (cases "model_writes ?es") (simp_all add: model_run_effects)
  from le1 tail src fin show ?thesis by blast
qed

theorem model_slot_written_at_most_once_witness:
  "model_writes (fst (loadModel ex_env)) = [7] \<and>
   after_first_write (fst (loadModel ex_env)) = loaded_effects ''model.json'' 7 \<and>
   fetched (after_first_write (fst (loadModel ex_env))) = [] \<and>
   load_attempts (after_first_write (fst (loadModel ex_env))) = [] \<and>
   (\<exists>ld c. tf ex_env = TfLayers ld \<and> c \<in> set MODEL_CANDIDATES \<and> probe_succeeds ex_env c \<and> ld c = Inr 7) \<and>
   model (run_effects ex_state (fst (loadModel ex_env))) = Some 7"
proof -
  have mw: "model_writes (fst (loadModel ex_env)) = [7]"
    by (simp add: ex_defs locateAndLoad_def after_def proj_Cons proj_Nil console_defs)
  have afw: "after_first_write (fst (loadModel ex_env)) = loaded_effects ''model.json'' 7"
    by (simp add: ex_defs locateAndLoad_def after_def after_first_write_def loaded_effects_def
        console_defs)
  show ?thesis
    using model_slot_written_at_most_once [of ex_env MODEL_CANDIDATES ex_state] mw afw
    by (simp add: loadModel_def)
qed

subsection \<open>tryFetchInfo\<close>

text \<open>
  Claim C9. When the fetch returns a response, \<open>tryFetchInfo\<close> returns the object holding
  the response's \<open>ok\<close> flag, its status, its URL, the value of its
  \<open>access-control-allow-origin\<close> header and a preview: the first 1000 characters of the
  body text, or the fixed text \<open>(preview not available)\<close> when reading the body threw.
  The preview is never longer than 1000 characters.
\<close>

theorem probe_result_of_answered_fetch:
  assumes "fetch env url = Inr res"
  shows "snd (tryFetchInfo env url) =
       Inr (ProbeInfo (res_ok res) (res_status res) (res_url res) (res_acao res)
              (case res_text res of
                 Inr txt \<Rightarrow> take 1000 txt
               | Inl e \<Rightarrow> ''(preview not available)'')) \<and>
     length (case res_text res of
               Inr txt \<Rightarrow> take 1000 txt
             | Inl e \<Rightarrow> ''(preview not available)'') \<le> 1000 \<and>
     fst (tryFetchInfo env url) = [Fetch url]"
  using assms
  by (simp add: tryFetchInfo_def try_catch_def bind_ex_def split: sum.splits)

theorem probe_result_of_answered_fetch_witness:
  "fetch long_body_env ''model.json'' =
     Inr \<lparr>res_ok = True, res_status = 200, res_url = ''model.json'', res_acao = Some ''*'',
          res_text = Inr (replicate 1500 (CHR ''x''))\<rparr> \<and>
   snd (tryFetchInfo long_body_env ''model.json'') =
     Inr (ProbeInfo True 200 ''model.json'' (Some ''*'') (replicate 1000 (CHR ''x'')))"
proof -
  have h: "fetch long_body_env ''model.json'' =
     Inr \<lparr>res_ok = True, res_status = 200, res_url = ''model.json'', res_acao = Some ''*'',
          res_text = Inr (replicate 1500 (CHR ''x''))\<rparr>"
    by (simp add: long_body_env_def)
  show ?thesis
    using probe_result_of_answered_fetch [OF h] h by simp
qed

text \<open>
  Claim C10. \<open>tryFetchInfo\<close> never throws: whatever the fetch does, and whether or not
  the body can be read, it returns a probe result. When the fetch threw \<open>e\<close>, the result
  is the object with \<open>ok\<close> false and \<open>error\<close> the string made of \<open>e\<close>.
\<close>

theorem tryFetchInfo_never_throws:
  "\<exists>info. snd (tryFetchInfo env url) = Inr info \<and>
     (\<forall>e. fetch env url = Inl e \<longrightarrow> info = ProbeError (String_of e) \<and> \<not> ok info)"
  by (simp add: tryFetchInfo_def try_catch_def bind_ex_def split: sum.splits)

theorem tryFetchInfo_never_throws_witness:
  "fetch ex_env ''./model.json'' = Inl (JsError ''TypeError'' ''Failed to fetch'') \<and>
   snd (tryFetchInfo ex_env ''./model.json'') = Inr (ProbeError ''TypeError: Failed to fetch'') \<and>
   \<not> ok (ProbeError ''TypeError: Failed to fetch'')"
proof -
  have h: "fetch ex_env ''./model.json'' = Inl (JsError ''TypeError'' ''Failed to fetch'')"
    by (simp add: ex_env_def ex_fetch_def)
  from tryFetchInfo_never_throws [of ex_env "''./model.json''"]
  obtain info where "snd (tryFetchInfo ex_env ''./model.json'') = Inr info"
    and "\<forall>e. fetch ex_env ''./model.json'' = Inl e \<longrightarrow> info = ProbeError (String_of e) \<and> \<not> ok info"
    by blast
  with h show ?thesis by simp
qed

subsection \<open>The diagnostic pass\<close>

lemma locate_split:
  "locateAndLoad env cs =
     (fst (locateAndLoad_without_reprobe env cs) @
        (case tf env of
           TfLayers ld \<Rightarrow>
             (if find (usable env ld) cs = None
              then error [Str ''Network probes summary:''] # reprobe env cs else [])
         | _ \<Rightarrow> []),
      snd (locateAndLoad_without_reprobe env cs))"
proof (cases "tf env")
  case TfUndefined
  then show ?thesis by (simp add: locateAndLoad_def locateAndLoad_without_reprobe_def after_def)
next
  case TfWithoutLoader
  then show ?thesis by (simp add: locateAndLoad_def locateAndLoad_without_reprobe_def after_def)
next
  case (TfLayers ld)
  show ?thesis
  proof (cases rule: find_usable_cases [of env ld cs])
    case none
    then show ?thesis
      using TfLayers loop_exit_none [OF none, of None]
      by (cases "candidates_loop env ld cs None")
        (simp add: locateAndLoad_def locateAndLoad_without_reprobe_def after_def)
  next
    case (found c m)
    then show ?thesis
      using TfLayers loop_exit_found [OF found(1), of None]
      by (cases "candidates_loop env ld cs None")
        (simp add: locateAndLoad_def locateAndLoad_without_reprobe_def after_def)
  qed
qed

lemma settle_proj:
  "model_writes (concat (map settle ts)) = []"
  "output_writes (concat (map settle ts)) = []"
  "loader_writes (concat (map settle ts)) = []"
  "fetched (concat (map settle ts)) = []"
  "load_attempts (concat (map settle ts)) = []"
  "detached (concat (map settle ts)) = []"
proof -
  have one: "model_writes (settle t) = [] \<and> output_writes (settle t) = [] \<and>
      loader_writes (settle t) = [] \<and> fetched (settle t) = [] \<and>
      load_attempts (settle t) = [] \<and> detached (settle t) = []"
    for t :: "string \<times> (thrown + ProbeResult)"
    by (cases t rule: settle.cases) (simp_all add: proj_Cons proj_Nil console_defs)
  show "model_writes (concat (map settle ts)) = []"
    "output_writes (concat (map settle ts)) = []"
    "loader_writes (concat (map settle ts)) = []"
    "fetched (concat (map settle ts)) = []"
    "load_attempts (concat (map settle ts)) = []"
    "detached (concat (map settle ts)) = []"
    by (induction ts) (simp_all add: proj_Nil proj_append one)
qed

text \<open>
  Claim C7. \<open>locateAndLoad\<close> and the loader without the diagnostic pass complete in the
  same way, and the effects of the former are those of the latter followed by the pass.
  The pass writes neither the \<open>model\<close> slot nor the page, does not call the runtime loader
  and logs no probe result of the loop; at most it prints its heading. So both leave the
  same \<open>model\<close> slot, loader element and page text. The promises the pass leaves behind,
  settling later in any order and number, write to the console only: slot and page stay
  as the loader without the pass left them.
\<close>

theorem diagnostic_pass_does_not_affect_outcome:
  "(let full = fst (locateAndLoad env cands);
        short = fst (locateAndLoad_without_reprobe env cands);
        pass = drop (length short) full;
        later = concat (map settle ts)
    in snd (locateAndLoad env cands) = snd (locateAndLoad_without_reprobe env cands) \<and>
       full = short @ pass \<and>
       model_writes pass = [] \<and> output_writes pass = [] \<and> loader_writes pass = [] \<and>
       load_attempts pass = [] \<and> fetch_results pass = [] \<and>
       (console_lines pass = [] \<or> console_lines pass = [(Err, [Str ''Network probes summary:''])]) \<and>
       model (run_effects s full) = model (run_effects s short) \<and>
       loader_display (run_effects s full) = loader_display (run_effects s short) \<and>
       output_textContent (run_effects s full) = output_textContent (run_effects s short) \<and>
       model (run_effects (run_effects s full) later) = model (run_effects s short) \<and>
       loader_display (run_effects (run_effects s full) later) = loader_display (run_effects s short) \<and>
       output_textContent (run_effects (run_effects s full) later) =
         output_textContent (run_effects s short) \<and>
       fetched later = [] \<and> load_attempts later = [])"
proof -
  define short where "short = fst (locateAndLoad_without_reprobe env cands)"
  define pass where "pass =
     (case tf env of
        TfLayers ld \<Rightarrow>
          (if find (usable env ld) cands = None
           then error [Str ''Network probes summary:''] # reprobe env cands else [])
      | _ \<Rightarrow> ([] :: 'a effect list))"
  define later :: "'a effect list" where "later = concat (map settle ts)"
  have full: "fst (locateAndLoad env cands) = short @ pass"
    and compl: "snd (locateAndLoad env cands) = snd (locateAndLoad_without_reprobe env cands)"
    by (simp_all add: locate_split [of env cands] short_def pass_def)
  have dr: "drop (length short) (fst (locateAndLoad env cands)) = pass"
    by (simp add: full)
  have p: "model_writes pass = []" "output_writes pass = []" "loader_writes pass = []"
    "load_attempts pass = []" "fetch_results pass = []"
    "console_lines pass = [] \<or> console_lines pass = [(Err, [Str ''Network probes summary:''])]"
    by (simp_all add: pass_def proj_Cons proj_Nil console_defs reprobe_proj split: tf_global.splits)
  have l: "model_writes later = []" "output_writes later = []" "loader_writes later = []"
    "fetched later = []" "load_attempts later = []"
    by (simp_all add: later_def settle_proj)
  have s1: "model (run_effects s (short @ pass)) = model (run_effects s short)"
    "loader_display (run_effects s (short @ pass)) = loader_display (run_effects s short)"
    "output_textContent (run_effects s (short @ pass)) = output_textContent (run_effects s short)"
    by (simp_all add: model_run_effects loader_run_effects output_run_effects proj_append p)
  have s2: "model (run_effects (run_effects s (short @ pass)) later) = model (run_effects s short)"
    "loader_display (run_effects (run_effects s (short @ pass)) later) = loader_display (run_effects s short)"
    "output_textContent (run_effects (run_effects s (short @ pass)) later) =
       output_textContent (run_effects s short)"
    using s1
    by (simp_all add: model_run_effects [of _ later] loader_run_effects [of _ later]
        output_run_effects [of _ later] l)
  show ?thesis
    unfolding Let_def dr compl full short_def [symmetric] later_def [symmetric]
    using p s1 s2 l by simp
qed

theorem diagnostic_pass_does_not_affect_outcome_witness:
  "fst (loadModel (ex_env\<lparr>tf := TfLayers failing_load\<rparr>)) =
     fst (locateAndLoad_without_reprobe (ex_env\<lparr>tf := TfLayers failing_load\<rparr>) MODEL_CANDIDATES) @
     error [Str ''Network probes summary:''] #
     reprobe (ex_env\<lparr>tf := TfLayers failing_load\<rparr>) MODEL_CANDIDATES \<and>
   output_textContent (run_effects (run_effects ex_state
       (fst (loadModel (ex_env\<lparr>tf := TfLayers failing_load\<rparr>))))
       (concat (map settle (detached (fst (loadModel (ex_env\<lparr>tf := TfLayers failing_load\<rparr>))))))) =
     ''Model not loaded. See console for details.''"
proof -
  let ?env = "ex_env\<lparr>tf := TfLayers failing_load\<rparr>"
  have none: "find (usable ?env failing_load) MODEL_CANDIDATES = None"
    by (simp add: MODEL_CANDIDATES_def usable_def load_succeeds_def failing_load_def)
  have sp: "fst (loadModel ?env) =
     fst (locateAndLoad_without_reprobe ?env MODEL_CANDIDATES) @
     error [Str ''Network probes summary:''] # reprobe ?env MODEL_CANDIDATES"
    using none by (simp add: loadModel_def locate_split [of ?env MODEL_CANDIDATES])
  have out: "output_textContent (run_effects ex_state
      (fst (locateAndLoad_without_reprobe ?env MODEL_CANDIDATES))) =
     ''Model not loaded. See console for details.''"
    by (simp add: ex_defs failing_load_def locateAndLoad_without_reprobe_def after_def
        output_run_effects proj_Cons proj_Nil console_defs js_of_lastError_def)
  show ?thesis
    using diagnostic_pass_does_not_affect_outcome
      [where env = ?env and cands = MODEL_CANDIDATES and s = ex_state
        and ts = "detached (fst (loadModel ?env))"] sp out
    by (simp add: Let_def loadModel_def)
qed

subsection \<open>Running the loader again\<close>

lemma probe_cong: "fetch env1 u = fetch env2 u \<Longrightarrow> probe env1 u = probe env2 u"
  by (simp add: probe_def)

lemma loop_cong:
  "\<forall>u\<in>set cs. fetch env1 u = fetch env2 u \<and> l1 u = l2 u \<Longrightarrow>
   candidates_loop env1 l1 cs le = candidates_loop env2 l2 cs le"
proof (induction cs arbitrary: le)
  case Nil
  then show ?case by simp
next
  case (Cons a cs)
  from Cons.prems have "fetch env1 a = fetch env2 a" by simp
  then have p: "probe env1 a = probe env2 a" by (rule probe_cong)
  from Cons.prems have l: "l1 a = l2 a" by simp
  from Cons.prems have "\<forall>u\<in>set cs. fetch env1 u = fetch env2 u \<and> l1 u = l2 u" by simp
  then have ih: "candidates_loop env1 l1 cs le' = candidates_loop env2 l2 cs le'" for le'
    by (rule Cons.IH)
  show ?case by (simp only: loop_Cons p l ih)
qed

lemma reprobe_cong:
  "\<forall>u\<in>set cs. fetch env1 u = fetch env2 u \<Longrightarrow> reprobe env1 cs = reprobe env2 cs"
proof (induction cs)
  case Nil
  then show ?case by simp
next
  case (Cons a cs)
  from Cons.prems have "fetch env1 a = fetch env2 a" by simp
  then have p: "probe env1 a = probe env2 a" by (rule probe_cong)
  from Cons have ih: "reprobe env1 cs = reprobe env2 cs" by simp
  show ?case by (simp add: snd_tryFetchInfo p ih)
qed

lemma locate_cong:
  assumes "same_answers env1 env2 cs"
  shows "locateAndLoad env2 cs = locateAndLoad env1 cs"
proof -
  from assms have f: "\<forall>u\<in>set cs. fetch env1 u = fetch env2 u"
    by (simp add: same_answers_def list_all_iff)
  show ?thesis
  proof (cases "tf env1")
    case TfUndefined
    with assms show ?thesis by (simp add: same_answers_def locateAndLoad_def)
  next
    case TfWithoutLoader
    with assms show ?thesis by (simp add: same_answers_def locateAndLoad_def)
  next
    case (TfLayers l1)
    with assms obtain l2 where t2: "tf env2 = TfLayers l2" and l: "\<forall>u\<in>set cs. l1 u = l2 u"
      by (cases "tf env2") (simp_all add: same_answers_def list_all_iff)
    from f l have "candidates_loop env1 l1 cs None = candidates_loop env2 l2 cs None"
      by (intro loop_cong) simp
    then show ?thesis
      using TfLayers t2 reprobe_cong [OF f] by (simp add: locateAndLoad_def)
  qed
qed

lemma run_effects_twice:
  "model (run_effects (run_effects s es) es) = model (run_effects s es)"
  "loader_display (run_effects (run_effects s es) es) = loader_display (run_effects s es)"
  "output_textContent (run_effects (run_effects s es) es) = output_textContent (run_effects s es)"
  by (simp_all add: model_run_effects loader_run_effects output_run_effects)

text \<open>
  Claim C8. Let the loader run, and then run again from the state the first run left, in
  a world that answers every candidate as before (fetch and runtime loader alike; it may
  differ elsewhere). The second run does exactly what the first did: the same effects in
  the same order, so the same requests are issued again, the same candidate is named as
  the source and the same handle is written. The \<open>model\<close> slot, the loader element and
  the page text are after the second run as they were after the first; the console
  holds the lines of the run a second time.
\<close>

theorem rerun_gives_same_outcome:
  assumes "same_answers env1 env2 cands"
  shows "locateAndLoad env2 cands = locateAndLoad env1 cands \<and>
     fetched (fst (locateAndLoad env2 cands)) = fetched (fst (locateAndLoad env1 cands)) \<and>
     model (run_effects (run_effects s (fst (locateAndLoad env1 cands))) (fst (locateAndLoad env2 cands))) =
       model (run_effects s (fst (locateAndLoad env1 cands))) \<and>
     loader_display (run_effects (run_effects s (fst (locateAndLoad env1 cands))) (fst (locateAndLoad env2 cands))) =
       loader_display (run_effects s (fst (locateAndLoad env1 cands))) \<and>
     output_textContent (run_effects (run_effects s (fst (locateAndLoad env1 cands))) (fst (locateAndLoad env2 cands))) =
       output_textContent (run_effects s (fst (locateAndLoad env1 cands))) \<and>
     console (run_effects (run_effects s (fst (locateAndLoad env1 cands))) (fst (locateAndLoad env2 cands))) =
       console (run_effects s (fst (locateAndLoad env1 cands))) @
       console_lines (fst (locateAndLoad env1 cands))"
proof -
  note eq = locate_cong [OF assms]
  show ?thesis
    unfolding eq by (simp add: run_effects_twice console_run_effects)
qed

theorem rerun_gives_same_outcome_witness:
  "same_answers ex_env later_env MODEL_CANDIDATES \<and>
   fetch later_env ''other.json'' \<noteq> fetch ex_env ''other.json'' \<and>
   loadModel later_env = loadModel ex_env \<and>
   fetched (fst (loadModel later_env)) = [''./model.json'', ''/model.json'', ''model.json''] \<and>
   model (run_effects (run_effects ex_state (fst (loadModel ex_env))) (fst (loadModel later_env))) = Some 7"
proof -
  have h: "same_answers ex_env later_env MODEL_CANDIDATES"
    by (simp add: same_answers_def later_env_def ex_env_def MODEL_CANDIDATES_def)
  have d: "fetch later_env ''other.json'' \<noteq> fetch ex_env ''other.json''"
    by (simp add: later_env_def ex_env_def ex_fetch_def)
  have f: "fetched (fst (loadModel ex_env)) = [''./model.json'', ''/model.json'', ''model.json'']"
    by (simp add: ex_defs locateAndLoad_def after_def proj_Cons proj_Nil console_defs)
  have m: "model (run_effects ex_state (fst (loadModel ex_env))) = Some 7"
    by (simp add: ex_defs locateAndLoad_def after_def model_run_effects proj_Cons proj_Nil console_defs)
  from rerun_gives_same_outcome [OF h, of ex_state]
  have eq: "locateAndLoad later_env MODEL_CANDIDATES = locateAndLoad ex_env MODEL_CANDIDATES"
    and again: "model (run_effects (run_effects ex_state (fst (locateAndLoad ex_env MODEL_CANDIDATES)))
        (fst (locateAndLoad later_env MODEL_CANDIDATES))) =
      model (run_effects ex_state (fst (locateAndLoad ex_env MODEL_CANDIDATES)))"
    by blast+
  have "loadModel later_env = loadModel ex_env"
    using eq by (simp add: loadModel_def)
  moreover have "fetched (fst (loadModel later_env)) = [''./model.json'', ''/model.json'', ''model.json'']"
    using eq f by (simp add: loadModel_def)
  moreover have "model (run_effects (run_effects ex_state (fst (loadModel ex_env)))
      (fst (loadModel later_env))) = Some 7"
    using again m by (simp only: loadModel_def)
  ultimately show ?thesis using h d by blast
qed

end
